theory Spec2Isabelle
  imports Complex_Main
begin

section \<open>Python strings\<close>

text \<open>
  Strings are lists of 8-bit characters. The case mappings of Python's \<open>str.lower\<close>,
  \<open>str.upper\<close>, \<open>str.title\<close> and \<open>str.capitalize\<close> are modelled on the ASCII
  letters; the character classes of the regular expressions of the source
  (\<open>[a-zA-Z0-9_]\<close> and the classes of the email pattern) are ASCII by their own text.
\<close>

definition is_upper_ch :: "char \<Rightarrow> bool" where
  "is_upper_ch c = (65 \<le> (of_char c :: nat) \<and> (of_char c :: nat) \<le> 90)"

definition is_lower_ch :: "char \<Rightarrow> bool" where
  "is_lower_ch c = (97 \<le> (of_char c :: nat) \<and> (of_char c :: nat) \<le> 122)"

definition is_digit_ch :: "char \<Rightarrow> bool" where
  "is_digit_ch c = (48 \<le> (of_char c :: nat) \<and> (of_char c :: nat) \<le> 57)"

definition is_alpha_ch :: "char \<Rightarrow> bool" where
  "is_alpha_ch c = (is_upper_ch c \<or> is_lower_ch c)"

definition is_word_ch :: "char \<Rightarrow> bool" where
  \<comment> \<open>the class \<open>[a-zA-Z0-9_]\<close>\<close>
  "is_word_ch c = (is_alpha_ch c \<or> is_digit_ch c \<or> c = CHR ''_'')"

definition lower_ch :: "char \<Rightarrow> char" where
  "lower_ch c = (if is_upper_ch c then char_of ((of_char c :: nat) + 32) else c)"

definition upper_ch :: "char \<Rightarrow> char" where
  "upper_ch c = (if is_lower_ch c then char_of ((of_char c :: nat) - 32) else c)"

definition str_lower :: "string \<Rightarrow> string" where
  "str_lower s = map lower_ch s"

definition str_upper :: "string \<Rightarrow> string" where
  "str_upper s = map upper_ch s"

fun title_from :: "bool \<Rightarrow> string \<Rightarrow> string" where
  "title_from prev [] = []"
| "title_from prev (c # cs) =
     (if is_alpha_ch c then (if prev then lower_ch c else upper_ch c) # title_from True cs
      else c # title_from False cs)"

definition str_title :: "string \<Rightarrow> string" where
  \<comment> \<open>\<open>str.title\<close>: a letter after a letter is lowered, any other letter is raised\<close>
  "str_title s = title_from False s"

definition capitalize :: "string \<Rightarrow> string" where
  "capitalize s = (case s of [] \<Rightarrow> [] | c # cs \<Rightarrow> upper_ch c # str_lower cs)"

fun str_contains :: "string \<Rightarrow> string \<Rightarrow> bool" where
  \<comment> \<open>\<open>sub in s\<close>\<close>
  "str_contains sub [] = (sub = [])"
| "str_contains sub (c # cs) = (take (length sub) (c # cs) = sub \<or> str_contains sub cs)"

fun split_on :: "char \<Rightarrow> string \<Rightarrow> string list" where
  \<comment> \<open>\<open>s.split(sep)\<close> for a one-character separator\<close>
  "split_on sep [] = [[]]"
| "split_on sep (c # cs) =
     (if c = sep then [] # split_on sep cs
      else (case split_on sep cs of [] \<Rightarrow> [[c]] | w # ws \<Rightarrow> (c # w) # ws))"

fun join :: "string \<Rightarrow> string list \<Rightarrow> string" where
  "join sep [] = []"
| "join sep [w] = w"
| "join sep (w # v # ws) = w @ sep @ join sep (v # ws)"

definition strip_ch :: "char \<Rightarrow> string \<Rightarrow> string" where
  \<comment> \<open>\<open>s.strip(c)\<close>\<close>
  "strip_ch c s = rev (dropWhile (\<lambda>x. x = c) (rev (dropWhile (\<lambda>x. x = c) s)))"

definition digit_ch :: "nat \<Rightarrow> char" where
  "digit_ch d = char_of (48 + d)"

function str_nat :: "nat \<Rightarrow> string" where
  "str_nat n = (if n < 10 then [digit_ch n] else str_nat (n div 10) @ [digit_ch (n mod 10)])"
  by pat_completeness auto
termination
  by (relation "measure id") auto

declare str_nat.simps [simp del]

definition str_int :: "int \<Rightarrow> string" where
  "str_int i = (if i < 0 then CHR ''-'' # str_nat (nat (- i)) else str_nat (nat i))"

text \<open>
  Floating-point numbers are modelled as exact reals, with \<open>None\<close> for NaN where a
  computation can produce it. Rounding to a number of decimals (\<open>round(x, 2)\<close>, the
  format \<open>:.2f\<close>) rounds the exact value, ties to even.
\<close>

definition round_half_even :: "real \<Rightarrow> int" where
  "round_half_even r =
     (let f = \<lfloor>r\<rfloor>; d = r - of_int f
      in if d < 1 / 2 then f else if 1 / 2 < d then f + 1 else if even f then f else f + 1)"

definition round2 :: "real \<Rightarrow> real" where
  \<comment> \<open>\<open>round(x, 2)\<close>\<close>
  "round2 x = of_int (round_half_even (x * 100)) / 100"

definition fmt_2f :: "real \<Rightarrow> string" where
  \<comment> \<open>\<open>f"{x:.2f}"\<close>\<close>
  "fmt_2f x =
     (let n = nat (round_half_even (\<bar>x\<bar> * 100))
      in (if x < 0 then ''-'' else []) @ str_nat (n div 100) @ ''.'' @
         [digit_ch ((n mod 100) div 10), digit_ch (n mod 10)])"

definition fmt_2f_nan :: "real option \<Rightarrow> string" where
  "fmt_2f_nan x = (case x of None \<Rightarrow> ''nan'' | Some r \<Rightarrow> fmt_2f r)"

section \<open>The tabular dataset\<close>

text \<open>
  A pandas DataFrame: the ordered columns with their dtypes, and the rows in order, each
  with its index label and one cell per column. A missing value (\<open>None\<close>, NaN, NaT) is
  \<open>Null\<close>. Two cells are equal when they are the same value of the same kind, and two
  nulls are equal, as pandas takes them when it looks for duplicate rows.
\<close>

datatype dtype = Int64 | Float64 | Object | Bool | Datetime64

datatype cell = Null | IntV int | FloatV real | StrV string | BoolV bool | DateV int

datatype exn = TypeError | ValueError

record dataframe =
  columns :: "(string \<times> dtype) list"
  rows :: "(int \<times> cell list) list"

text \<open>
  What the library does that the repository's code does not fix: parsing of dates and
  numbers, and the text of a float or a timestamp. \<open>to_datetime\<close> is \<open>pd.to_datetime\<close> on
  one value (\<open>Inl\<close> when it raises); \<open>to_datetime_coerce\<close> and \<open>to_numeric_coerce\<close> are
  \<open>pd.to_datetime\<close> and \<open>pd.to_numeric\<close> on a whole column with \<open>errors='coerce'\<close>.
\<close>

record pandas_env =
  to_datetime :: "cell \<Rightarrow> exn + int"
  to_datetime_coerce :: "cell list \<Rightarrow> exn + cell list"
  to_numeric_coerce :: "cell list \<Rightarrow> exn + cell list"
  str_float :: "real \<Rightarrow> string"
  str_timestamp :: "int \<Rightarrow> string"

definition py_str :: "pandas_env \<Rightarrow> cell \<Rightarrow> string" where
  \<comment> \<open>\<open>str(value)\<close>\<close>
  "py_str env v =
     (case v of
        Null \<Rightarrow> ''nan''
      | IntV i \<Rightarrow> str_int i
      | FloatV x \<Rightarrow> str_float env x
      | StrV s \<Rightarrow> s
      | BoolV b \<Rightarrow> (if b then ''True'' else ''False'')
      | DateV t \<Rightarrow> str_timestamp env t)"

definition column_names :: "dataframe \<Rightarrow> string list" where
  "column_names d = map fst (columns d)"

definition len :: "dataframe \<Rightarrow> nat" where
  "len d = length (rows d)"

fun index_of :: "'a \<Rightarrow> 'a list \<Rightarrow> nat option" where
  "index_of x [] = None"
| "index_of x (y # ys) = (if x = y then Some 0 else map_option Suc (index_of x ys))"

definition cell_at :: "cell list \<Rightarrow> nat \<Rightarrow> cell" where
  "cell_at r j = (if j < length r then r ! j else Null)"

definition series :: "dataframe \<Rightarrow> string \<Rightarrow> (int \<times> cell) list" where
  \<comment> \<open>\<open>df[column].items()\<close>: the column's values with their index labels. The source reads
      columns it has taken from \<open>df.columns\<close> or has tested for membership.\<close>
  "series d column =
     (case index_of column (column_names d) of
        None \<Rightarrow> []
      | Some j \<Rightarrow> map (\<lambda>(i, r). (i, cell_at r j)) (rows d))"

definition col_values :: "dataframe \<Rightarrow> string \<Rightarrow> cell list" where
  "col_values d column = map snd (series d column)"

definition dtype_of :: "dataframe \<Rightarrow> string \<Rightarrow> dtype" where
  \<comment> \<open>\<open>df[column].dtype\<close>\<close>
  "dtype_of d column = (case map_of (columns d) column of None \<Rightarrow> Object | Some t \<Rightarrow> t)"

definition null_count :: "dataframe \<Rightarrow> string \<Rightarrow> nat" where
  \<comment> \<open>\<open>df[column].isnull().sum()\<close>\<close>
  "null_count d column = length (filter (\<lambda>v. v = Null) (col_values d column))"

definition boolean_index :: "'a list \<Rightarrow> bool list \<Rightarrow> 'a list" where
  \<comment> \<open>\<open>df[mask]\<close>: the rows at which the mask is true\<close>
  "boolean_index xs bs = map fst (filter snd (zip xs bs))"

definition num_of :: "cell \<Rightarrow> real option" where
  "num_of v = (case v of IntV i \<Rightarrow> Some (of_int i) | FloatV x \<Rightarrow> Some x | _ \<Rightarrow> None)"

definition nums :: "cell list \<Rightarrow> real list" where
  \<comment> \<open>the non-null numbers of a column\<close>
  "nums vs = concat (map (\<lambda>v. case num_of v of None \<Rightarrow> [] | Some x \<Rightarrow> [x]) vs)"

definition mean :: "cell list \<Rightarrow> real option" where
  \<comment> \<open>\<open>Series.mean()\<close>: over the non-null values, NaN when there is none\<close>
  "mean vs = (let xs = nums vs in if xs = [] then None else Some (sum_list xs / real (length xs)))"

definition std :: "cell list \<Rightarrow> real option" where
  \<comment> \<open>\<open>Series.std()\<close>: the sample standard deviation (ddof = 1) of the non-null values,
      NaN when there are fewer than two\<close>
  "std vs =
     (let xs = nums vs; n = length xs
      in if n < 2 then None
         else let m = sum_list xs / real n
              in Some (sqrt (sum_list (map (\<lambda>x. (x - m)\<^sup>2) xs) / real (n - 1))))"

definition z_score :: "real option \<Rightarrow> real option \<Rightarrow> cell \<Rightarrow> real option" where
  \<comment> \<open>\<open>np.abs((value - mean) / std)\<close>; NaN as soon as one operand is\<close>
  "z_score m sd v =
     (case (num_of v, m, sd) of
        (Some x, Some mu, Some s) \<Rightarrow> Some \<bar>(x - mu) / s\<bar>
      | _ \<Rightarrow> None)"

definition nan_gt :: "real option \<Rightarrow> real \<Rightarrow> bool" where
  \<comment> \<open>\<open>z > threshold\<close>, false on NaN\<close>
  "nan_gt z t = (case z of None \<Rightarrow> False | Some x \<Rightarrow> t < x)"

definition nan_le :: "real option \<Rightarrow> real \<Rightarrow> bool" where
  \<comment> \<open>\<open>z <= threshold\<close>, false on NaN\<close>
  "nan_le z t = (case z of None \<Rightarrow> False | Some x \<Rightarrow> x \<le> t)"

section \<open>The validator (validator.py)\<close>

record name_issue =
  column :: string
  problems :: "string list"

record missing_entry =
  count :: nat
  percentage :: real

record outlier_entry =
  count :: nat
  "values" :: "cell list"
  indices :: "int list"

record format_error =
  index :: int
  "value" :: string

record type_error =
  issue :: string
  "values" :: "string set"

text \<open>
  The dictionary \<open>self.issues\<close> with its six keys. The \<open>values\<close> of a type error are
  \<open>list(unique_vals)\<close> of a Python set, whose order the language leaves open: the
  model keeps the set.
\<close>

record issues =
  missing_values :: "string \<rightharpoonup> missing_entry"
  duplicates :: "(string \<times> cell) list list"
  type_errors :: "string \<rightharpoonup> type_error"
  outliers :: "string \<rightharpoonup> outlier_entry"
  format_errors :: "string \<rightharpoonup> format_error list"
  column_name_issues :: "name_issue list"

record DataValidator =
  df :: dataframe
  issues :: issues

definition DataValidator_init :: "dataframe \<Rightarrow> DataValidator" where
  "DataValidator_init d =
     \<lparr>df = d,
      issues = \<lparr>missing_values = Map.empty, duplicates = [], type_errors = Map.empty,
                outliers = Map.empty, format_errors = Map.empty, column_name_issues = []\<rparr>\<rparr>"

definition column_problems :: "string \<Rightarrow> string list" where
  "column_problems col =
     (if CHR '' '' \<in> set col then [''contains spaces''] else []) @
     (if \<exists>c \<in> set (filter (\<lambda>c. c \<noteq> CHR '' '') col). \<not> is_word_ch c
      then [''contains special characters''] else []) @
     (if col \<noteq> str_lower col \<and> col \<noteq> str_upper col \<and> col \<noteq> str_title col
      then [''inconsistent casing''] else [])"

definition name_issues_of :: "string list \<Rightarrow> name_issue list" where
  "name_issues_of names =
     concat (map (\<lambda>col. if column_problems col \<noteq> []
                             then [\<lparr>column = col, problems = column_problems col\<rparr>]
                             else []) names)"

definition check_column_names :: "DataValidator \<Rightarrow> DataValidator" where
  "check_column_names self =
     (let found = name_issues_of (column_names (df self))
      in if found \<noteq> [] then self\<lparr>issues := (issues self)\<lparr>column_name_issues := found\<rparr>\<rparr>
         else self)"

definition missing_step :: "dataframe \<Rightarrow> string \<Rightarrow> issues \<Rightarrow> issues" where
  "missing_step d col iss =
     (if 0 < null_count d col
      then iss\<lparr>missing_values := (missing_values iss)(col \<mapsto>
             \<lparr>missing_entry.count = null_count d col,
              percentage = round2 (real (null_count d col) / real (len d) * 100)\<rparr>)\<rparr>
      else iss)"

definition check_missing_values :: "DataValidator \<Rightarrow> DataValidator" where
  "check_missing_values self =
     self\<lparr>issues := fold (missing_step (df self)) (column_names (df self)) (issues self)\<rparr>"

definition duplicated_all :: "(int \<times> cell list) list \<Rightarrow> bool list" where
  \<comment> \<open>\<open>df.duplicated(keep=False)\<close>: the row's values occur in more than one row\<close>
  "duplicated_all rs = map (\<lambda>(i, r). 1 < length (filter (\<lambda>(j, r'). r' = r) rs)) rs"

definition to_dict_records :: "string list \<Rightarrow> (int \<times> cell list) list \<Rightarrow> (string \<times> cell) list list" where
  "to_dict_records names rs = map (\<lambda>(i, r). zip names r) rs"

definition check_duplicates :: "DataValidator \<Rightarrow> DataValidator" where
  "check_duplicates self =
     (let dups = boolean_index (rows (df self)) (duplicated_all (rows (df self)))
      in if 0 < length dups
         then self\<lparr>issues := (issues self)\<lparr>duplicates :=
                to_dict_records (column_names (df self)) dups\<rparr>\<rparr>
         else self)"

definition numeric_cols :: "dataframe \<Rightarrow> string list" where
  \<comment> \<open>\<open>df.select_dtypes(include=[np.number]).columns\<close>\<close>
  "numeric_cols d = map fst (filter (\<lambda>(c, t). t = Int64 \<or> t = Float64) (columns d))"

definition outliers_of :: "dataframe \<Rightarrow> real \<Rightarrow> string \<Rightarrow> (int \<times> cell) list" where
  \<comment> \<open>\<open>df[z_scores > threshold]\<close>, read at the col\<close>
  "outliers_of d threshold col =
     boolean_index (series d col)
       (map (\<lambda>v. nan_gt (z_score (mean (col_values d col)) (std (col_values d col)) v) threshold)
            (col_values d col))"

definition outlier_step :: "dataframe \<Rightarrow> real \<Rightarrow> string \<Rightarrow> issues \<Rightarrow> issues" where
  "outlier_step d threshold col iss =
     (if real (len d) * 0.5 < real (null_count d col) then iss
      else if std (col_values d col) = Some 0 then iss
      else if 0 < length (outliers_of d threshold col)
      then iss\<lparr>outliers := (outliers iss)(col \<mapsto>
             \<lparr>outlier_entry.count = length (outliers_of d threshold col),
              outlier_entry.values = map snd (outliers_of d threshold col),
              indices = map fst (outliers_of d threshold col)\<rparr>)\<rparr>
      else iss)"

definition check_numeric_outliers :: "real \<Rightarrow> DataValidator \<Rightarrow> DataValidator" where
  "check_numeric_outliers threshold self =
     self\<lparr>issues := fold (outlier_step (df self) threshold) (numeric_cols (df self)) (issues self)\<rparr>"

text \<open>
  The pattern \<open>^[a-zA-Z0-9._%+-]+@[a-zA-Z0-9.-]+\.[a-zA-Z]{2,}$\<close> under \<open>re.match\<close>.
  The first class has no \<open>@\<close>, so the local part ends at the first \<open>@\<close>; the last class
  has no dot, so the final label starts after the last dot; \<open>$\<close> also matches before
  one final newline.
\<close>

definition is_local_ch :: "char \<Rightarrow> bool" where
  "is_local_ch c = (is_alpha_ch c \<or> is_digit_ch c \<or> c \<in> set ''._%+-'')"

definition is_domain_ch :: "char \<Rightarrow> bool" where
  "is_domain_ch c = (is_alpha_ch c \<or> is_digit_ch c \<or> c \<in> set ''.-'')"

definition email_core :: "string \<Rightarrow> bool" where
  "email_core s =
     (let local = takeWhile (\<lambda>c. c \<noteq> CHR ''@'') s;
          rest = drop 1 (dropWhile (\<lambda>c. c \<noteq> CHR ''@'') s);
          tld = rev (takeWhile (\<lambda>c. c \<noteq> CHR ''.'') (rev rest));
          dom = rev (drop 1 (dropWhile (\<lambda>c. c \<noteq> CHR ''.'') (rev rest)))
      in CHR ''@'' \<in> set s \<and> local \<noteq> [] \<and> list_all is_local_ch local \<and>
         CHR ''.'' \<in> set rest \<and> dom \<noteq> [] \<and> list_all is_domain_ch dom \<and>
         2 \<le> length tld \<and> list_all is_alpha_ch tld)"

definition email_match :: "string \<Rightarrow> bool" where
  "email_match s =
     (email_core s \<or> (s \<noteq> [] \<and> last s = CHR 0x0A \<and> email_core (butlast s)))"

definition invalid_emails_of :: "pandas_env \<Rightarrow> (int \<times> cell) list \<Rightarrow> format_error list" where
  "invalid_emails_of env items =
     concat (map (\<lambda>(idx, v). if v \<noteq> Null \<and> \<not> email_match (py_str env v)
                              then [\<lparr>index = idx, value = py_str env v\<rparr>] else []) items)"

definition email_step :: "pandas_env \<Rightarrow> dataframe \<Rightarrow> string \<Rightarrow> issues \<Rightarrow> issues" where
  "email_step env d col iss =
     (if str_contains ''email'' (str_lower col)
      then (if invalid_emails_of env (series d col) \<noteq> []
            then iss\<lparr>format_errors := (format_errors iss)(col \<mapsto>
                   invalid_emails_of env (series d col))\<rparr>
            else iss)
      else iss)"

definition check_email_format :: "pandas_env \<Rightarrow> DataValidator \<Rightarrow> DataValidator" where
  "check_email_format env self =
     self\<lparr>issues := fold (email_step env (df self)) (column_names (df self)) (issues self)\<rparr>"

definition invalid_dates_of :: "pandas_env \<Rightarrow> (int \<times> cell) list \<Rightarrow> format_error list" where
  \<comment> \<open>the \<open>try\<close> around \<open>pd.to_datetime(value)\<close>: whatever it raises is caught and the
      value recorded\<close>
  "invalid_dates_of env items =
     concat (map (\<lambda>(idx, v). if v \<noteq> Null
                              then (case to_datetime env v of
                                      Inr t \<Rightarrow> []
                                    | Inl e \<Rightarrow> [\<lparr>index = idx, value = py_str env v\<rparr>])
                              else []) items)"

definition date_step :: "pandas_env \<Rightarrow> dataframe \<Rightarrow> string \<Rightarrow> issues \<Rightarrow> issues" where
  "date_step env d col iss =
     (if str_contains ''date'' (str_lower col)
      then (if invalid_dates_of env (series d col) \<noteq> []
            then iss\<lparr>format_errors := (format_errors iss)(col \<mapsto>
                   (case format_errors iss col of None \<Rightarrow> [] | Some es \<Rightarrow> es) @
                   invalid_dates_of env (series d col))\<rparr>
            else iss)
      else iss)"

definition check_date_format :: "pandas_env \<Rightarrow> DataValidator \<Rightarrow> DataValidator" where
  "check_date_format env self =
     self\<lparr>issues := fold (date_step env (df self)) (column_names (df self)) (issues self)\<rparr>"

definition bool_vals :: "string list" where
  "bool_vals = [''True'', ''False'', ''true'', ''false'', ''0'', ''1'', ''yes'', ''no'', ''Yes'', ''No'']"

definition unique_strs :: "pandas_env \<Rightarrow> cell list \<Rightarrow> string list" where
  \<comment> \<open>\<open>series.dropna().astype(str).unique()\<close>\<close>
  "unique_strs env vs = remdups (map (py_str env) (filter (\<lambda>v. v \<noteq> Null) vs))"

definition boolean_step :: "pandas_env \<Rightarrow> dataframe \<Rightarrow> string \<Rightarrow> issues \<Rightarrow> issues" where
  "boolean_step env d col iss =
     (if dtype_of d col = Object
      then (if list_all (\<lambda>s. s \<in> set bool_vals) (unique_strs env (col_values d col)) \<and>
               2 \<le> length (unique_strs env (col_values d col))
            then iss\<lparr>type_errors := (type_errors iss)(col \<mapsto>
                   \<lparr>issue = ''Inconsistent boolean format'',
                    values = set (unique_strs env (col_values d col))\<rparr>)\<rparr>
            else iss)
      else iss)"

definition check_boolean_consistency :: "pandas_env \<Rightarrow> DataValidator \<Rightarrow> DataValidator" where
  "check_boolean_consistency env self =
     self\<lparr>issues := fold (boolean_step env (df self)) (column_names (df self)) (issues self)\<rparr>"

definition validate_all :: "pandas_env \<Rightarrow> DataValidator \<Rightarrow> issues \<times> DataValidator" where
  \<comment> \<open>the value returned is \<open>self.issues\<close> as it stands at the return\<close>
  "validate_all env self =
     (let s1 = check_column_names self;
          s2 = check_missing_values s1;
          s3 = check_duplicates s2;
          s4 = check_numeric_outliers 3.0 s3;
          s5 = check_email_format env s4;
          s6 = check_date_format env s5;
          s7 = check_boolean_consistency env s6
      in (issues s7, s7))"

section \<open>Objects and references\<close>

text \<open>
  The cleaner and the preparer hold a reference to a DataFrame object and change it in two
  ways: by an assignment into the object (\<open>self.df[column] = ...\<close>,
  \<open>self.df.at[idx, column] = ...\<close>, \<open>rename(..., inplace=True)\<close>), seen through
  every reference to it, and by binding \<open>self.df\<close> to a new object
  (\<open>self.df = self.df.drop_duplicates(...)\<close>). The heap maps addresses to DataFrame
  objects; the addresses below \<open>next_addr\<close> are the allocated ones.
\<close>

record heap =
  objs :: "nat \<Rightarrow> dataframe"
  next_addr :: nat

definition alloc :: "dataframe \<Rightarrow> heap \<Rightarrow> nat \<times> heap" where
  "alloc d h = (next_addr h, h\<lparr>objs := (objs h)(next_addr h := d), next_addr := Suc (next_addr h)\<rparr>)"

definition assign :: "nat \<Rightarrow> dataframe \<Rightarrow> heap \<Rightarrow> heap" where
  \<comment> \<open>a change made inside the object at the address\<close>
  "assign a d h = h\<lparr>objs := (objs h)(a := d)\<rparr>"

section \<open>DataFrame operations used by the cleaner and the preparer\<close>

definition quoted :: "string \<Rightarrow> string" where
  "quoted s = CHR 0x27 # s @ [CHR 0x27]"

definition is_numeric :: "dtype \<Rightarrow> bool" where
  \<comment> \<open>\<open>dtype in ['int64', 'float64']\<close>\<close>
  "is_numeric t = (t = Int64 \<or> t = Float64)"

fun duplicated_first :: "cell list list \<Rightarrow> (int \<times> cell list) list \<Rightarrow> bool list" where
  \<comment> \<open>\<open>df.duplicated(keep='first')\<close>: the row's values have occurred in an earlier row\<close>
  "duplicated_first seen [] = []"
| "duplicated_first seen ((i, r) # rs) = (r \<in> set seen) # duplicated_first (r # seen) rs"

definition drop_duplicates :: "string \<Rightarrow> dataframe \<Rightarrow> exn + dataframe" where
  \<comment> \<open>pandas refuses a \<open>keep\<close> other than \<open>'first'\<close>, \<open>'last'\<close> and \<open>False\<close> with a
      ValueError\<close>
  "drop_duplicates keep d =
     (if keep = ''first''
      then Inr (d\<lparr>rows := boolean_index (rows d) (map Not (duplicated_first [] (rows d)))\<rparr>)
      else if keep = ''last''
      then Inr (d\<lparr>rows := boolean_index (rows d)
                    (map Not (rev (duplicated_first [] (rev (rows d)))))\<rparr>)
      else Inl ValueError)"

definition fits :: "dtype \<Rightarrow> cell \<Rightarrow> bool" where
  \<comment> \<open>the value can be stored in a column of the dtype as it is\<close>
  "fits t v =
     (case t of
        Object \<Rightarrow> True
      | Int64 \<Rightarrow> (case v of IntV i \<Rightarrow> True | _ \<Rightarrow> False)
      | Float64 \<Rightarrow> (case v of IntV i \<Rightarrow> True | FloatV x \<Rightarrow> True | Null \<Rightarrow> True | _ \<Rightarrow> False)
      | Bool \<Rightarrow> (case v of BoolV b \<Rightarrow> True | _ \<Rightarrow> False)
      | Datetime64 \<Rightarrow> (case v of DateV t \<Rightarrow> True | Null \<Rightarrow> True | _ \<Rightarrow> False))"

definition upcast :: "dtype \<Rightarrow> cell \<Rightarrow> dtype" where
  \<comment> \<open>the dtype of a column after the value is stored into it\<close>
  "upcast t v =
     (if fits t v then t
      else if t = Int64 \<and> (v = Null \<or> (\<exists>x. v = FloatV x)) then Float64
      else Object)"

definition recast :: "dtype \<Rightarrow> cell \<Rightarrow> cell" where
  \<comment> \<open>an integer held in a float column is a float\<close>
  "recast t v = (if t = Float64 then (case v of IntV i \<Rightarrow> FloatV (of_int i) | _ \<Rightarrow> v) else v)"

definition set_column :: "dataframe \<Rightarrow> string \<Rightarrow> dtype \<Rightarrow> (int \<Rightarrow> cell \<Rightarrow> cell) \<Rightarrow> dataframe" where
  \<comment> \<open>the existing column gets the dtype and, row by row, a new value\<close>
  "set_column d col t f =
     (case index_of col (column_names d) of
        None \<Rightarrow> d
      | Some j \<Rightarrow>
          d\<lparr>columns := (columns d)[j := (col, t)],
            rows := map (\<lambda>(i, r). (i, r[j := recast t (f i (cell_at r j))])) (rows d)\<rparr>)"

definition fillna :: "dataframe \<Rightarrow> string \<Rightarrow> cell \<Rightarrow> dataframe" where
  \<comment> \<open>\<open>df[column] = df[column].fillna(value)\<close>\<close>
  "fillna d col v =
     set_column d col (upcast (dtype_of d col) v) (\<lambda>i c. if c = Null then v else c)"

definition dropna :: "dataframe \<Rightarrow> string \<Rightarrow> dataframe" where
  \<comment> \<open>\<open>df.dropna(subset=[column])\<close>\<close>
  "dropna d col = d\<lparr>rows := boolean_index (rows d) (map (\<lambda>v. v \<noteq> Null) (col_values d col))\<rparr>"

definition median :: "cell list \<Rightarrow> real option" where
  \<comment> \<open>\<open>Series.median()\<close> over the non-null values\<close>
  "median vs =
     (let xs = sort (nums vs); n = length xs
      in if n = 0 then None
         else if odd n then Some (xs ! (n div 2))
         else Some ((xs ! (n div 2 - 1) + xs ! (n div 2)) / 2))"

fun str_less :: "string \<Rightarrow> string \<Rightarrow> bool" where
  "str_less [] [] = False"
| "str_less [] (d # ds) = True"
| "str_less (c # cs) [] = False"
| "str_less (c # cs) (d # ds) =
     ((of_char c :: nat) < of_char d \<or> (c = d \<and> str_less cs ds))"

definition cell_less :: "cell \<Rightarrow> cell \<Rightarrow> bool" where
  \<comment> \<open>the order in which \<open>Series.mode()\<close> sorts values of one kind; pandas leaves values
      of different kinds unsorted\<close>
  "cell_less a b =
     (case (a, b) of
        (StrV s, StrV t) \<Rightarrow> str_less s t
      | (BoolV x, BoolV y) \<Rightarrow> \<not> x \<and> y
      | (DateV x, DateV y) \<Rightarrow> x < y
      | _ \<Rightarrow> (case (num_of a, num_of b) of (Some x, Some y) \<Rightarrow> x < y | _ \<Rightarrow> False))"

definition mode :: "cell list \<Rightarrow> cell list" where
  \<comment> \<open>\<open>Series.mode()\<close>: the most frequent non-null values, the least first\<close>
  "mode vs =
     (let xs = filter (\<lambda>v. v \<noteq> Null) vs;
          top = fold max (map (count_list xs) xs) 0;
          ms = filter (\<lambda>v. count_list xs v = top) (remdups xs)
      in case ms of
           [] \<Rightarrow> []
         | m # rest \<Rightarrow>
             (let least = fold (\<lambda>v w. if cell_less v w then v else w) rest m
              in least # filter (\<lambda>v. v \<noteq> least) ms))"

definition new_dtype :: "cell \<Rightarrow> dtype" where
  \<comment> \<open>the dtype of a column created for the value, with NaN in its other rows\<close>
  "new_dtype v =
     (case v of
        IntV i \<Rightarrow> Float64
      | FloatV x \<Rightarrow> Float64
      | DateV t \<Rightarrow> Datetime64
      | _ \<Rightarrow> Object)"

definition at_set :: "dataframe \<Rightarrow> int \<Rightarrow> string \<Rightarrow> cell \<Rightarrow> dataframe" where
  \<comment> \<open>\<open>df.at[idx, column] = value\<close> for a label of the index: pandas sets the cell of an
      existing column, and for a column that does not exist falls back to \<open>df.loc\<close>, which
      adds the column, empty in the other rows\<close>
  "at_set d idx col v =
     (if col \<in> set (column_names d)
      then set_column d col (upcast (dtype_of d col) v) (\<lambda>i c. if i = idx then v else c)
      else d\<lparr>columns := columns d @ [(col, new_dtype v)],
             rows := map (\<lambda>(i, r). (i, r @ [if i = idx then recast (new_dtype v) v else Null]))
                         (rows d)\<rparr>)"

section \<open>The cleaner (cleaner.py)\<close>

record DataCleaner =
  df :: nat
  cleaning_log :: "string list"

definition DataCleaner_init :: "nat \<Rightarrow> heap \<Rightarrow> DataCleaner \<times> heap" where
  \<comment> \<open>\<open>self.df = df.copy()\<close>: a new object with the data of the one at the address\<close>
  "DataCleaner_init a h =
     (let (a', h') = alloc (objs h a) h in (\<lparr>df = a', cleaning_log = []\<rparr>, h'))"

definition log_append :: "string \<Rightarrow> DataCleaner \<Rightarrow> DataCleaner" where
  "log_append msg self = self\<lparr>cleaning_log := cleaning_log self @ [msg]\<rparr>"

definition working_copy :: "DataCleaner \<times> heap \<Rightarrow> dataframe" where
  "working_copy s = objs (snd s) (DataCleaner.df (fst s))"

definition remove_duplicates :: "string \<Rightarrow> DataCleaner \<times> heap \<Rightarrow> exn option \<times> DataCleaner \<times> heap" where
  "remove_duplicates keep s =
     (let self = fst s; h = snd s;
          before_count = len (objs h (DataCleaner.df self))
      in case drop_duplicates keep (objs h (DataCleaner.df self)) of
           Inl e \<Rightarrow> (Some e, s)
         | Inr d' \<Rightarrow>
             (let (a, h') = alloc d' h;
                  self' = self\<lparr>DataCleaner.df := a\<rparr>;
                  removed = before_count - len d'
              in if 0 < removed
                 then (None, log_append (''Removed '' @ str_nat removed @ '' duplicate rows'') self', h')
                 else (None, self', h')))"

definition fill_step :: "pandas_env \<Rightarrow> string \<times> cell \<Rightarrow> DataCleaner \<times> heap \<Rightarrow> exn option \<times> DataCleaner \<times> heap" where
  \<comment> \<open>one round of the loop over \<open>strategy.items()\<close>. pandas computes the mean and the
      median of numbers; the model follows it on the int64 and float64 columns and takes
      every other dtype as the TypeError pandas raises on text. \<open>fillna(None)\<close> is a
      ValueError.\<close>
  "fill_step env item s =
     (let col = fst item; method = snd item; self = fst s; h = snd s;
          d = objs h (DataCleaner.df self);
          missing_count = null_count d col
      in if col \<notin> set (column_names d) then (None, s)
         else if missing_count = 0 then (None, s)
         else if method = StrV ''mean'' then
           (if \<not> is_numeric (dtype_of d col) then (Some TypeError, s)
            else (None,
                  log_append (''Filled '' @ str_nat missing_count @ '' missing values in '' @
                              quoted col @ '' with mean: '' @ fmt_2f_nan (mean (col_values d col))) self,
                  assign (DataCleaner.df self)
                    (case mean (col_values d col) of None \<Rightarrow> d | Some x \<Rightarrow> fillna d col (FloatV x)) h))
         else if method = StrV ''median'' then
           (if \<not> is_numeric (dtype_of d col) then (Some TypeError, s)
            else (None,
                  log_append (''Filled '' @ str_nat missing_count @ '' missing values in '' @
                              quoted col @ '' with median: '' @ fmt_2f_nan (median (col_values d col))) self,
                  assign (DataCleaner.df self)
                    (case median (col_values d col) of None \<Rightarrow> d | Some x \<Rightarrow> fillna d col (FloatV x)) h))
         else if method = StrV ''mode'' then
           (let fill_value = (case mode (col_values d col) of [] \<Rightarrow> StrV ''Unknown'' | m # ms \<Rightarrow> m)
            in (None,
                log_append (''Filled '' @ str_nat missing_count @ '' missing values in '' @
                            quoted col @ '' with mode: '' @ py_str env fill_value) self,
                assign (DataCleaner.df self) (fillna d col fill_value) h))
         else if method = StrV ''drop'' then
           (let before_count = len d;
                (a, h') = alloc (dropna d col) h;
                removed = before_count - len (dropna d col)
            in (None,
                log_append (''Dropped '' @ str_nat removed @ '' rows with missing '' @ quoted col)
                  (self\<lparr>DataCleaner.df := a\<rparr>),
                h'))
         else if method = Null then (Some ValueError, s)
         else (None,
               log_append (''Filled '' @ str_nat missing_count @ '' missing values in '' @
                           quoted col @ '' with '' @ quoted (py_str env method)) self,
               assign (DataCleaner.df self) (fillna d col method) h))"

fun fill_missing_values :: "pandas_env \<Rightarrow> (string \<times> cell) list \<Rightarrow> DataCleaner \<times> heap \<Rightarrow> exn option \<times> DataCleaner \<times> heap" where
  \<comment> \<open>the strategy dictionary in its order; an exception ends the loop and leaves the
      state as the rounds before it made it\<close>
  "fill_missing_values env [] s = (None, s)"
| "fill_missing_values env (item # strategy) s =
     (case fill_step env item s of
        (Some e, s') \<Rightarrow> (Some e, s')
      | (None, s') \<Rightarrow> fill_missing_values env strategy s')"

definition remove_outliers :: "string \<Rightarrow> real \<Rightarrow> DataCleaner \<times> heap \<Rightarrow> exn option \<times> DataCleaner \<times> heap" where
  \<comment> \<open>the mean of a column that is not int64 or float64 is taken as a TypeError, as in
      \<open>fill_step\<close>\<close>
  "remove_outliers col threshold s =
     (let self = fst s; h = snd s; d = objs h (DataCleaner.df self)
      in if col \<notin> set (column_names d) then (None, s)
         else if \<not> is_numeric (dtype_of d col) then (Some TypeError, s)
         else
           (let before_count = len d;
                mu = mean (col_values d col);
                sd = std (col_values d col)
            in if sd = Some 0 then (None, s)
               else
                 (let d' = d\<lparr>rows := boolean_index (rows d)
                                (map (\<lambda>v. nan_le (z_score mu sd v) threshold) (col_values d col))\<rparr>;
                      (a, h') = alloc d' h;
                      self' = self\<lparr>DataCleaner.df := a\<rparr>;
                      removed = before_count - len d'
                  in if 0 < removed
                     then (None, log_append (''Removed '' @ str_nat removed @ '' outliers from '' @ quoted col) self', h')
                     else (None, self', h'))))"

definition index_labels :: "dataframe \<Rightarrow> int list" where
  \<comment> \<open>\<open>df.index\<close>\<close>
  "index_labels d = map fst (rows d)"

fun fix_loop :: "string \<Rightarrow> cell \<Rightarrow> int list \<Rightarrow> dataframe \<times> nat \<Rightarrow> dataframe \<times> nat" where
  "fix_loop col fix_value [] (d, n) = (d, n)"
| "fix_loop col fix_value (idx # invalid_indices) (d, n) =
     (if idx \<in> set (index_labels d)
      then fix_loop col fix_value invalid_indices (at_set d idx col fix_value, n + 1)
      else fix_loop col fix_value invalid_indices (d, n))"

definition fix_invalid_values :: "string \<Rightarrow> int list \<Rightarrow> cell \<Rightarrow> DataCleaner \<times> heap \<Rightarrow> exn option \<times> DataCleaner \<times> heap" where
  "fix_invalid_values col invalid_indices fix_value s =
     (let self = fst s; h = snd s;
          (d', n) = fix_loop col fix_value invalid_indices (objs h (DataCleaner.df self), 0);
          h' = assign (DataCleaner.df self) d' h
      in if 0 < n
         then (None, log_append (''Fixed '' @ str_nat n @ '' invalid values in '' @ quoted col) self, h')
         else (None, self, h'))"

definition get_cleaning_log :: "DataCleaner \<Rightarrow> string list" where
  "get_cleaning_log self = cleaning_log self"

section \<open>The preparer (tableau_prep.py)\<close>

record TableauPrep =
  df :: nat
  prep_log :: "string list"

definition TableauPrep_init :: "nat \<Rightarrow> heap \<Rightarrow> TableauPrep \<times> heap" where
  \<comment> \<open>\<open>self.df = df.copy()\<close>\<close>
  "TableauPrep_init a h =
     (let (a', h') = alloc (objs h a) h in (\<lparr>df = a', prep_log = []\<rparr>, h'))"

fun collapse_underscores :: "string \<Rightarrow> string" where
  \<comment> \<open>\<open>re.sub(r'_+', '_', s)\<close>\<close>
  "collapse_underscores (c # d # cs) =
     (if c = CHR ''_'' \<and> d = CHR ''_'' then collapse_underscores (d # cs)
      else c # collapse_underscores (d # cs))"
| "collapse_underscores cs = cs"

definition clean_name :: "string \<Rightarrow> string" where
  "clean_name col =
     join ''_'' (map capitalize (split_on (CHR ''_'')
       (strip_ch (CHR ''_'') (collapse_underscores
         (map (\<lambda>c. if is_word_ch c then c else CHR ''_'') col)))))"

definition clean_column_names :: "TableauPrep \<times> heap \<Rightarrow> TableauPrep \<times> heap" where
  \<comment> \<open>\<open>new_columns\<close> is a dictionary, with one entry per distinct name\<close>
  "clean_column_names s =
     (let self = fst s; h = snd s; d = objs h (TableauPrep.df self);
          h' = assign (TableauPrep.df self)
                 (d\<lparr>columns := map (\<lambda>(c, t). (clean_name c, t)) (columns d)\<rparr>) h
      in (self\<lparr>prep_log := prep_log self @
              [''Standardized '' @ str_nat (length (remdups (column_names d))) @
               '' column names for Tableau'']\<rparr>, h'))"

definition str_dtype :: "dtype \<Rightarrow> string" where
  "str_dtype t =
     (case t of Int64 \<Rightarrow> ''int64'' | Float64 \<Rightarrow> ''float64'' | Object \<Rightarrow> ''object''
      | Bool \<Rightarrow> ''bool'' | Datetime64 \<Rightarrow> ''datetime64[ns]'')"

definition arrow :: string where
  \<comment> \<open>the arrow of the log line, in UTF-8, between two spaces\<close>
  "arrow = [CHR 0x20, CHR 0xE2, CHR 0x86, CHR 0x92, CHR 0x20]"

definition replace_column :: "dataframe \<Rightarrow> string \<Rightarrow> dtype \<Rightarrow> cell list \<Rightarrow> dataframe" where
  \<comment> \<open>\<open>df[column] = series\<close> for an existing column: the values row by row\<close>
  "replace_column d col t vs =
     (case index_of col (column_names d) of
        None \<Rightarrow> d
      | Some j \<Rightarrow>
          d\<lparr>columns := (columns d)[j := (col, t)],
            rows := map (\<lambda>((i, r), v). (i, r[j := v])) (zip (rows d) vs)
                    @ drop (length vs) (rows d)\<rparr>)"

definition bool_map :: "cell \<Rightarrow> cell" where
  \<comment> \<open>\<open>Series.map(bool_map)\<close>: a value that is no key of the dictionary becomes NaN\<close>
  "bool_map v =
     (case v of
        StrV s \<Rightarrow>
          (if s \<in> set [''True'', ''true'', ''1'', ''yes'', ''Yes''] then BoolV True
           else if s \<in> set [''False'', ''false'', ''0'', ''no'', ''No''] then BoolV False
           else Null)
      | _ \<Rightarrow> Null)"

definition mapped_dtype :: "cell list \<Rightarrow> dtype" where
  \<comment> \<open>the dtype pandas infers for the mapped column\<close>
  "mapped_dtype vs =
     (if vs \<noteq> [] \<and> list_all (\<lambda>v. \<exists>b. v = BoolV b) vs then Bool
      else if vs \<noteq> [] \<and> list_all (\<lambda>v. v = Null) vs then Float64
      else Object)"

definition numeric_dtype :: "cell list \<Rightarrow> dtype" where
  \<comment> \<open>the dtype of the result of \<open>pd.to_numeric\<close>\<close>
  "numeric_dtype vs = (if list_all (\<lambda>v. \<exists>i. v = IntV i) vs then Int64 else Float64)"

definition date_attempt :: "pandas_env \<Rightarrow> string \<Rightarrow> string \<Rightarrow> dataframe \<times> string list \<Rightarrow> dataframe \<times> string list" where
  "date_attempt env original_type col st =
     (let d = fst st; type_changes = snd st
      in if str_contains ''date'' (str_lower col) \<and> dtype_of d col = Object
         then (case to_datetime_coerce env (col_values d col) of
                 Inl e \<Rightarrow> st
               | Inr vs \<Rightarrow> (replace_column d col Datetime64 vs,
                            type_changes @ [col @ '': '' @ original_type @ arrow @ ''datetime64'']))
         else st)"

definition bool_attempt :: "pandas_env \<Rightarrow> string \<Rightarrow> string \<Rightarrow> dataframe \<times> string list \<Rightarrow> dataframe \<times> string list" where
  "bool_attempt env original_type col st =
     (let d = fst st; type_changes = snd st
      in if dtype_of d col = Object
         then (if list_all (\<lambda>s. s \<in> set bool_vals) (unique_strs env (col_values d col))
               then (replace_column d col (mapped_dtype (map bool_map (col_values d col)))
                       (map bool_map (col_values d col)),
                     type_changes @ [col @ '': '' @ original_type @ arrow @ ''boolean''])
               else st)
         else st)"

definition numeric_attempt :: "pandas_env \<Rightarrow> string \<Rightarrow> string \<Rightarrow> dataframe \<times> string list \<Rightarrow> dataframe \<times> string list" where
  \<comment> \<open>with no row the quotient is NaN and the comparison false\<close>
  "numeric_attempt env original_type col st =
     (let d = fst st; type_changes = snd st
      in if dtype_of d col = Object
         then (case to_numeric_coerce env (col_values d col) of
                 Inl e \<Rightarrow> st
               | Inr vs \<Rightarrow>
                   (if 0 < len d \<and>
                       0.8 < real (length (filter (\<lambda>v. v \<noteq> Null) vs)) / real (len d)
                    then (replace_column d col (numeric_dtype vs) vs,
                          type_changes @ [col @ '': '' @ original_type @ arrow @ ''numeric''])
                    else st))
         else st)"

definition enforce_step :: "pandas_env \<Rightarrow> string \<Rightarrow> dataframe \<times> string list \<Rightarrow> dataframe \<times> string list" where
  "enforce_step env col st =
     (let original_type = str_dtype (dtype_of (fst st) col)
      in numeric_attempt env original_type col
           (bool_attempt env original_type col (date_attempt env original_type col st)))"

definition enforce_data_types :: "pandas_env \<Rightarrow> TableauPrep \<times> heap \<Rightarrow> TableauPrep \<times> heap" where
  "enforce_data_types env s =
     (let self = fst s; h = snd s; d = objs h (TableauPrep.df self);
          (d', type_changes) = fold (enforce_step env) (column_names d) (d, []);
          h' = assign (TableauPrep.df self) d' h
      in if type_changes \<noteq> []
         then (self\<lparr>prep_log := prep_log self @
                  [''Converted '' @ str_nat (length type_changes) @ '' column types''] @
                  map (\<lambda>change. ''  - '' @ change) type_changes\<rparr>, h')
         else (self, h'))"

record suggestions =
  dimensions :: "string list"
  measures :: "string list"
  dates :: "string list"

definition nunique :: "dataframe \<Rightarrow> string \<Rightarrow> nat" where
  \<comment> \<open>\<open>df[column].nunique()\<close>: the distinct non-null values\<close>
  "nunique d col = length (remdups (filter (\<lambda>v. v \<noteq> Null) (col_values d col)))"

definition unique_ratio :: "dataframe \<Rightarrow> string \<Rightarrow> real" where
  \<comment> \<open>\<open>df[column].nunique() / len(df) if len(df) > 0 else 0\<close>\<close>
  "unique_ratio d col = (if 0 < len d then real (nunique d col) / real (len d) else 0)"

definition guide_step :: "dataframe \<Rightarrow> string \<Rightarrow> suggestions \<Rightarrow> suggestions" where
  "guide_step d col sg =
     (let dtype = dtype_of d col;
          unique_ratio = unique_ratio d col
      in if dtype = Datetime64 then sg\<lparr>dates := dates sg @ [col]\<rparr>
         else if is_numeric dtype then
           (if 0.5 < unique_ratio then sg\<lparr>measures := measures sg @ [col]\<rparr>
            else sg\<lparr>dimensions := dimensions sg @ [col]\<rparr>)
         else sg\<lparr>dimensions := dimensions sg @ [col]\<rparr>)"

definition create_dimension_measure_guide :: "dataframe \<Rightarrow> suggestions" where
  \<comment> \<open>the method reads \<open>self.df\<close> and changes nothing: the model takes the frame\<close>
  "create_dimension_measure_guide d =
     fold (guide_step d) (column_names d) \<lparr>dimensions = [], measures = [], dates = []\<rparr>"

record metadata_row =
  Column_Name :: string
  Data_Type :: string
  Null_Count :: nat
  Null_Percentage :: "real option"
  Unique_Values :: nat
  Sample_Values :: string
  Min_Value :: cell
  Max_Value :: cell
  Suggested_Role :: string

definition min_value :: "cell list \<Rightarrow> cell" where
  \<comment> \<open>\<open>Series.min()\<close> of a numeric column, NaN when it has no value\<close>
  "min_value vs =
     (case filter (\<lambda>v. v \<noteq> Null) vs of
        [] \<Rightarrow> Null
      | v # rest \<Rightarrow> fold (\<lambda>a b. if cell_less a b then a else b) rest v)"

definition max_value :: "cell list \<Rightarrow> cell" where
  "max_value vs =
     (case filter (\<lambda>v. v \<noteq> Null) vs of
        [] \<Rightarrow> Null
      | v # rest \<Rightarrow> fold (\<lambda>a b. if cell_less b a then a else b) rest v)"

definition suggested_role :: "suggestions \<Rightarrow> string \<Rightarrow> string" where
  "suggested_role sg col =
     (if col \<in> set (dimensions sg) then ''Dimension''
      else if col \<in> set (measures sg) then ''Measure''
      else if col \<in> set (dates sg) then ''Date''
      else ''Unknown'')"

definition metadata_of :: "pandas_env \<Rightarrow> dataframe \<Rightarrow> suggestions \<Rightarrow> string \<Rightarrow> metadata_row" where
  \<comment> \<open>one round of the loop; the percentage of a frame with no row is NaN\<close>
  "metadata_of env d sg col =
     \<lparr>Column_Name = col,
      Data_Type = str_dtype (dtype_of d col),
      Null_Count = null_count d col,
      Null_Percentage =
        (if len d = 0 then None
         else Some (round2 (real (null_count d col) / real (len d) * 100))),
      Unique_Values = nunique d col,
      Sample_Values =
        join '', '' (map (\<lambda>x. take 50 (py_str env x))
                         (take 3 (filter (\<lambda>v. v \<noteq> Null) (col_values d col)))),
      Min_Value = (if is_numeric (dtype_of d col) then min_value (col_values d col) else StrV ''N/A''),
      Max_Value = (if is_numeric (dtype_of d col) then max_value (col_values d col) else StrV ''N/A''),
      Suggested_Role = suggested_role sg col\<rparr>"

definition generate_metadata :: "pandas_env \<Rightarrow> dataframe \<Rightarrow> metadata_row list" where
  "generate_metadata env d =
     (let sg = create_dimension_measure_guide d
      in map (metadata_of env d sg) (column_names d))"

definition get_prep_log :: "TableauPrep \<Rightarrow> string list" where
  "get_prep_log self = prep_log self"

section \<open>Sequences of calls\<close>

text \<open>
  The calls that change a working copy, as data, and a run of them on one cleaner and one
  preparer that share a heap. After a call that raises, the run goes on with the state the
  call has left, as a caller that catches the exception would.
\<close>

datatype operation =
    RemoveDuplicates string
  | FillMissingValues "(string \<times> cell) list"
  | RemoveOutliers string real
  | FixInvalidValues string "int list" cell
  | CleanColumnNames
  | EnforceDataTypes

definition apply_operation :: "pandas_env \<Rightarrow> operation \<Rightarrow> DataCleaner \<times> TableauPrep \<times> heap \<Rightarrow> DataCleaner \<times> TableauPrep \<times> heap" where
  \<comment> \<open>one call on the cleaner or on the preparer, both living in one heap; after a call
      that raises, the caller goes on with the state the call has left\<close>
  "apply_operation env op w =
     (let c = fst w; p = fst (snd w); h = snd (snd w)
      in case op of
           RemoveDuplicates keep \<Rightarrow>
             (let s = snd (remove_duplicates keep (c, h)) in (fst s, p, snd s))
         | FillMissingValues strategy \<Rightarrow>
             (let s = snd (fill_missing_values env strategy (c, h)) in (fst s, p, snd s))
         | RemoveOutliers col threshold \<Rightarrow>
             (let s = snd (remove_outliers col threshold (c, h)) in (fst s, p, snd s))
         | FixInvalidValues col invalid_indices fix_value \<Rightarrow>
             (let s = snd (fix_invalid_values col invalid_indices fix_value (c, h))
              in (fst s, p, snd s))
         | CleanColumnNames \<Rightarrow>
             (let s = clean_column_names (p, h) in (c, fst s, snd s))
         | EnforceDataTypes \<Rightarrow>
             (let s = enforce_data_types env (p, h) in (c, fst s, snd s)))"

definition run_operations :: "pandas_env \<Rightarrow> operation list \<Rightarrow> DataCleaner \<times> TableauPrep \<times> heap \<Rightarrow> DataCleaner \<times> TableauPrep \<times> heap" where
  "run_operations env ops w = fold (apply_operation env) ops w"

definition construct :: "nat \<Rightarrow> nat \<Rightarrow> heap \<Rightarrow> DataCleaner \<times> TableauPrep \<times> heap" where
  \<comment> \<open>\<open>DataCleaner(df_a)\<close>, then \<open>TableauPrep(df_b)\<close>\<close>
  "construct a b h =
     (let s = DataCleaner_init a h; t = TableauPrep_init b (snd s) in (fst s, fst t, snd t))"

definition untouched :: "nat \<Rightarrow> heap \<Rightarrow> heap \<Rightarrow> bool" where
  \<comment> \<open>the objects below the address are the same in both heaps, and the second heap has
      allocated at least up to it\<close>
  "untouched n h h' = (n \<le> next_addr h' \<and> (\<forall>x < n. objs h' x = objs h x))"

section \<open>Frames with one cell per column\<close>

definition wf_frame :: "dataframe \<Rightarrow> bool" where
  \<comment> \<open>every row has one cell per column\<close>
  "wf_frame d = list_all (\<lambda>(i, r). length r = length (columns d)) (rows d)"

definition with_new_column :: "dataframe \<Rightarrow> string \<Rightarrow> cell \<Rightarrow> int set \<Rightarrow> dataframe" where
  \<comment> \<open>the frame with one more column, which holds the value in the rows labelled in the
      set and is null elsewhere\<close>
  "with_new_column d col v S =
     d\<lparr>columns := columns d @ [(col, new_dtype v)],
       rows := map (\<lambda>(i, r). (i, r @ [if i \<in> S then recast (new_dtype v) v else Null])) (rows d)\<rparr>"

section \<open>Datasets of the specification's examples\<close>

definition outlier_df :: dataframe where
  \<comment> \<open>the column \<open>[10, 10, 10, 10, 10, 1000]\<close>\<close>
  "outlier_df =
     \<lparr>columns = [(''amount'', Int64)],
      rows = [(0, [IntV 10]), (1, [IntV 10]), (2, [IntV 10]), (3, [IntV 10]), (4, [IntV 10]),
              (5, [IntV 1000])]\<rparr>"

definition no_rows_df :: dataframe where
  \<comment> \<open>three columns and no row\<close>
  "no_rows_df =
     \<lparr>columns = [(''name'', Object), (''when'', Datetime64), (''amount'', Float64)], rows = []\<rparr>"

definition role_df :: dataframe where
  \<comment> \<open>the dataset of \<open>test_dimension_measure_suggestions\<close>, the dates as day numbers\<close>
  "role_df =
     \<lparr>columns = [(''category'', Object), (''amount'', Int64), (''date'', Datetime64)],
      rows = [(0, [StrV ''A'', IntV 100, DateV 19723]), (1, [StrV ''B'', IntV 200, DateV 19724]),
              (2, [StrV ''A'', IntV 150, DateV 19725]), (3, [StrV ''B'', IntV 250, DateV 19726])]\<rparr>"

definition example_env :: pandas_env where
  \<comment> \<open>a library that parses nothing, for the examples\<close>
  "example_env =
     \<lparr>to_datetime = (\<lambda>v. Inl ValueError),
      to_datetime_coerce = (\<lambda>vs. Inr (map (\<lambda>v. Null) vs)),
      to_numeric_coerce = (\<lambda>vs. Inr (map (\<lambda>v. Null) vs)),
      str_float = (\<lambda>x. ''0.0''),
      str_timestamp = (\<lambda>t. ''1970-01-01 00:00:00'')\<rparr>"

definition empty_frame :: dataframe where
  "empty_frame = \<lparr>columns = [], rows = []\<rparr>"

definition heap_of :: "dataframe \<Rightarrow> heap" where
  \<comment> \<open>a heap whose one object, at address 0, is the caller's dataset\<close>
  "heap_of d = \<lparr>objs = (\<lambda>a. empty_frame)(0 := d), next_addr = 1\<rparr>"

definition mean_df :: dataframe where
  \<comment> \<open>the column \<open>[1, 2, None, 4]\<close>\<close>
  "mean_df =
     \<lparr>columns = [(''A'', Float64)],
      rows = [(0, [FloatV 1]), (1, [FloatV 2]), (2, [Null]), (3, [FloatV 4])]\<rparr>"



definition fix_df :: dataframe where
  "fix_df =
     \<lparr>columns = [(''name'', Object)],
      rows = [(0, [StrV ''a'']), (1, [StrV ''b'']), (2, [StrV ''c''])]\<rparr>"

definition date_df :: dataframe where
  \<comment> \<open>one column \<open>order date\<close> with the invalid date of the sample data\<close>
  "date_df = \<lparr>columns = [(''order date'', Object)], rows = [(0, [StrV ''2024-13-45''])]\<rparr>"


section \<open>Properties\<close>

subsection \<open>Outlier detection\<close>

lemma gt_div_sqrt:
  assumes "0 < v" "0 \<le> t" "0 \<le> a"
  shows "(t < a / sqrt v) = (t\<^sup>2 * v < a\<^sup>2)"
proof -
  have sv: "0 < sqrt v" using assms by simp
  have "(t < a / sqrt v) = (t * sqrt v < a)"
    using sv by (simp add: pos_less_divide_eq)
  also have "\<dots> = (sqrt (t\<^sup>2 * v) < sqrt (a\<^sup>2))"
    using assms by (simp add: real_sqrt_mult)
  also have "\<dots> = (t\<^sup>2 * v < a\<^sup>2)"
    by (rule real_sqrt_less_iff)
  finally show ?thesis .
qed

lemma div_sqrt_lt:
  assumes "0 < v" "0 \<le> t" "0 \<le> a"
  shows "(a / sqrt v < t) = (a\<^sup>2 < t\<^sup>2 * v)"
proof -
  have sv: "0 < sqrt v" using assms by simp
  have "(a / sqrt v < t) = (a < t * sqrt v)"
    using sv by (simp add: pos_divide_less_eq)
  also have "\<dots> = (sqrt (a\<^sup>2) < sqrt (t\<^sup>2 * v))"
    using assms by (simp add: real_sqrt_mult)
  also have "\<dots> = (a\<^sup>2 < t\<^sup>2 * v)"
    by (rule real_sqrt_less_iff)
  finally show ?thesis .
qed

lemma outlier_df_values:
  "col_values outlier_df ''amount'' = [IntV 10, IntV 10, IntV 10, IntV 10, IntV 10, IntV 1000]"
  by (simp add: col_values_def series_def outlier_df_def column_names_def cell_at_def)

lemma outlier_df_series:
  "series outlier_df ''amount'' =
     [(0, IntV 10), (1, IntV 10), (2, IntV 10), (3, IntV 10), (4, IntV 10), (5, IntV 1000)]"
  by (simp add: series_def outlier_df_def column_names_def cell_at_def)

lemma outlier_df_mean:
  "mean [IntV 10, IntV 10, IntV 10, IntV 10, IntV 10, IntV 1000] = Some 175"
  by (simp add: mean_def nums_def num_of_def)

lemma outlier_df_std:
  "std [IntV 10, IntV 10, IntV 10, IntV 10, IntV 10, IntV 1000] = Some (sqrt 163350)"
  by (simp add: std_def nums_def num_of_def)

lemma outlier_df_at_3: "outliers_of outlier_df 3 ''amount'' = []"
  by (simp add: outliers_of_def outlier_df_values outlier_df_series outlier_df_mean outlier_df_std
      z_score_def num_of_def nan_gt_def gt_div_sqrt boolean_index_def)

lemma outlier_df_at_2: "outliers_of outlier_df 2 ''amount'' = [(5, IntV 1000)]"
  by (simp add: outliers_of_def outlier_df_values outlier_df_series outlier_df_mean outlier_df_std
      z_score_def num_of_def nan_gt_def gt_div_sqrt boolean_index_def)

lemma outlier_df_step_3:
  "outlier_step outlier_df 3 ''amount'' iss = iss"
  by (simp add: outlier_step_def outlier_df_at_3)

lemma outlier_df_numeric_cols: "numeric_cols outlier_df = [''amount'']"
  by (simp add: numeric_cols_def outlier_df_def)

lemma outlier_df_guards:
  "null_count outlier_df ''amount'' = 0"
  "std (col_values outlier_df ''amount'') \<noteq> Some 0"
  by (simp_all add: null_count_def outlier_df_values outlier_df_std)

text \<open>
  C2, as the specification states it, fails: for the column \<open>[10, 10, 10, 10, 10, 1000]\<close>
  the outlier check with threshold 3.0 does not record the one outlier 1000.
\<close>

theorem outlier_example_counterexample:
  "outliers (issues (check_numeric_outliers 3.0 (DataValidator_init outlier_df))) ''amount''
     \<noteq> Some \<lparr>outlier_entry.count = 1, outlier_entry.values = [IntV 1000], indices = [5]\<rparr>"
  by (simp add: check_numeric_outliers_def outlier_df_numeric_cols outlier_df_step_3
      DataValidator_init_def)

text \<open>
  C2, amended: for the column \<open>[10, 10, 10, 10, 10, 1000]\<close> the mean is 175 and the
  sample standard deviation is the square root of 163350; the score of a value is
  \<open>|value - mean| / std\<close>, which for 1000 is \<open>825 / sqrt 163350\<close>, about 2.04, and
  does not exceed 3.0. The outlier check with threshold 3.0 therefore flags no value and
  leaves the outliers slot empty. A value is flagged when its score exceeds the
  threshold: with threshold 2.0 the check flags exactly one outlier, the value 1000 at
  row 5.
\<close>

theorem outlier_example_amended:
  "outliers (issues (check_numeric_outliers 3.0 (DataValidator_init outlier_df))) = Map.empty \<and>
   z_score (mean (col_values outlier_df ''amount'')) (std (col_values outlier_df ''amount''))
     (IntV 1000) = Some (825 / sqrt 163350) \<and>
   825 / sqrt 163350 < (3 :: real) \<and>
   outliers (issues (check_numeric_outliers 2.0 (DataValidator_init outlier_df))) =
     [''amount'' \<mapsto> \<lparr>outlier_entry.count = 1, outlier_entry.values = [IntV 1000], indices = [5]\<rparr>]"
proof -
  have a: "outliers (issues (check_numeric_outliers 3.0 (DataValidator_init outlier_df))) = Map.empty"
    by (simp add: check_numeric_outliers_def outlier_df_numeric_cols outlier_df_step_3
        DataValidator_init_def)
  have b: "z_score (mean (col_values outlier_df ''amount'')) (std (col_values outlier_df ''amount''))
     (IntV 1000) = Some (825 / sqrt 163350)"
    by (simp add: outlier_df_values outlier_df_mean outlier_df_std z_score_def num_of_def)
  have c: "825 / sqrt 163350 < (3 :: real)"
    using div_sqrt_lt [of 163350 3 825] by simp
  have d: "outliers (issues (check_numeric_outliers 2.0 (DataValidator_init outlier_df))) =
     [''amount'' \<mapsto> \<lparr>outlier_entry.count = 1, outlier_entry.values = [IntV 1000], indices = [5]\<rparr>]"
    by (simp add: check_numeric_outliers_def outlier_df_numeric_cols outlier_step_def
        outlier_df_guards outlier_df_at_2 DataValidator_init_def)
  show ?thesis using a b c d by blast
qed

subsection \<open>Column roles\<close>

lemma guide_fold:
  "fold (guide_step d) cs sg =
     \<lparr>dimensions = dimensions sg @
        filter (\<lambda>c. dtype_of d c \<noteq> Datetime64 \<and> \<not> (is_numeric (dtype_of d c) \<and> 0.5 < unique_ratio d c)) cs,
      measures = measures sg @
        filter (\<lambda>c. dtype_of d c \<noteq> Datetime64 \<and> is_numeric (dtype_of d c) \<and> 0.5 < unique_ratio d c) cs,
      dates = dates sg @ filter (\<lambda>c. dtype_of d c = Datetime64) cs\<rparr>"
  by (induction cs arbitrary: sg) (auto simp: guide_step_def Let_def)

lemma guide_buckets:
  "create_dimension_measure_guide d =
     \<lparr>dimensions =
        filter (\<lambda>c. dtype_of d c \<noteq> Datetime64 \<and> \<not> (is_numeric (dtype_of d c) \<and> 0.5 < unique_ratio d c)) (column_names d),
      measures =
        filter (\<lambda>c. dtype_of d c \<noteq> Datetime64 \<and> is_numeric (dtype_of d c) \<and> 0.5 < unique_ratio d c) (column_names d),
      dates = filter (\<lambda>c. dtype_of d c = Datetime64) (column_names d)\<rparr>"
  by (simp add: create_dimension_measure_guide_def guide_fold)

lemma three_buckets_length:
  "length (filter (\<lambda>c. \<not> D c \<and> \<not> (N c \<and> R c)) cs) + length (filter (\<lambda>c. \<not> D c \<and> N c \<and> R c) cs)
     + length (filter D cs) = length cs"
  by (induction cs) auto

text \<open>
  C3, as the specification states it, fails: a dataset with no row and three columns does
  not get three empty buckets.
\<close>

theorem zero_rows_counterexample:
  "create_dimension_measure_guide no_rows_df \<noteq> \<lparr>dimensions = [], measures = [], dates = []\<rparr>"
  by (simp add: guide_buckets no_rows_df_def column_names_def dtype_of_def is_numeric_def)

text \<open>
  C3, amended: for every dataset with zero rows the guard on the row count makes the
  cardinality ratio of every column 0 without dividing, so the classification does not
  fail; no column is a measure, the date-time columns are the dates and every other
  column is a dimension, in column order. The three buckets are all empty exactly when
  the dataset has no column.
\<close>

theorem zero_rows_guide:
  assumes "rows d = []"
  shows "unique_ratio d col = 0 \<and>
         measures (create_dimension_measure_guide d) = [] \<and>
         dates (create_dimension_measure_guide d) =
           filter (\<lambda>c. dtype_of d c = Datetime64) (column_names d) \<and>
         dimensions (create_dimension_measure_guide d) =
           filter (\<lambda>c. dtype_of d c \<noteq> Datetime64) (column_names d) \<and>
         ((create_dimension_measure_guide d = \<lparr>dimensions = [], measures = [], dates = []\<rparr>) =
          (columns d = []))"
proof -
  have r: "\<And>c. unique_ratio d c = 0"
    using assms by (simp add: unique_ratio_def len_def)
  have m: "measures (create_dimension_measure_guide d) = []"
    by (simp add: guide_buckets r)
  have dt: "dates (create_dimension_measure_guide d) =
      filter (\<lambda>c. dtype_of d c = Datetime64) (column_names d)"
    by (simp add: guide_buckets)
  have dm: "dimensions (create_dimension_measure_guide d) =
      filter (\<lambda>c. dtype_of d c \<noteq> Datetime64) (column_names d)"
    by (simp add: guide_buckets r)
  have e: "(create_dimension_measure_guide d = \<lparr>dimensions = [], measures = [], dates = []\<rparr>) =
      (columns d = [])"
    by (cases "columns d") (auto simp: guide_buckets r column_names_def)
  show ?thesis using r m dt dm e by blast
qed

theorem zero_rows_guide_witness:
  "rows no_rows_df = [] \<and>
   measures (create_dimension_measure_guide no_rows_df) = [] \<and>
   dates (create_dimension_measure_guide no_rows_df) = [''when''] \<and>
   dimensions (create_dimension_measure_guide no_rows_df) = [''name'', ''amount'']"
  using zero_rows_guide [of no_rows_df]
  by (simp add: no_rows_df_def column_names_def dtype_of_def)

text \<open>
  C10: every row of the metadata table has the role Dimension, Measure or Date, never
  Unknown, because the buckets of the classification partition the columns: every column
  name is in a bucket, no name is in two, and the buckets together have one entry per
  column.
\<close>

theorem metadata_roles:
  "(\<forall>row \<in> set (generate_metadata env d).
      Suggested_Role row \<in> {''Dimension'', ''Measure'', ''Date''}) \<and>
   set (dimensions (create_dimension_measure_guide d)) \<union>
     set (measures (create_dimension_measure_guide d)) \<union>
     set (dates (create_dimension_measure_guide d)) = set (column_names d) \<and>
   set (dimensions (create_dimension_measure_guide d)) \<inter>
     set (measures (create_dimension_measure_guide d)) = {} \<and>
   set (dimensions (create_dimension_measure_guide d)) \<inter>
     set (dates (create_dimension_measure_guide d)) = {} \<and>
   set (measures (create_dimension_measure_guide d)) \<inter>
     set (dates (create_dimension_measure_guide d)) = {} \<and>
   length (dimensions (create_dimension_measure_guide d)) +
     length (measures (create_dimension_measure_guide d)) +
     length (dates (create_dimension_measure_guide d)) = length (column_names d)"
proof -
  let ?g = "create_dimension_measure_guide d"
  have u: "set (dimensions ?g) \<union> set (measures ?g) \<union> set (dates ?g) = set (column_names d)"
    by (auto simp: guide_buckets)
  have r: "\<forall>row \<in> set (generate_metadata env d).
      Suggested_Role row \<in> {''Dimension'', ''Measure'', ''Date''}"
    using u by (auto simp: generate_metadata_def metadata_of_def suggested_role_def Let_def)
  have i: "set (dimensions ?g) \<inter> set (measures ?g) = {}"
    "set (dimensions ?g) \<inter> set (dates ?g) = {}"
    "set (measures ?g) \<inter> set (dates ?g) = {}"
    by (auto simp: guide_buckets)
  have l: "length (dimensions ?g) + length (measures ?g) + length (dates ?g) = length (column_names d)"
    unfolding guide_buckets
    using three_buckets_length [of "\<lambda>c. dtype_of d c = Datetime64" "\<lambda>c. is_numeric (dtype_of d c)"
        "\<lambda>c. 0.5 < unique_ratio d c" "column_names d"]
    by simp
  show ?thesis using u r i l by blast
qed

lemma role_df_ratios:
  "unique_ratio role_df ''category'' = 1 / 2" "unique_ratio role_df ''amount'' = 1"
  by (simp_all add: unique_ratio_def nunique_def col_values_def series_def role_df_def
      column_names_def cell_at_def len_def)

lemma role_df_columns:
  "column_names role_df = [''category'', ''amount'', ''date'']"
  "dtype_of role_df ''category'' = Object"
  "dtype_of role_df ''amount'' = Int64"
  "dtype_of role_df ''date'' = Datetime64"
  by (simp_all add: role_df_def column_names_def dtype_of_def)

lemma role_df_guide:
  "create_dimension_measure_guide role_df =
     \<lparr>dimensions = [''category''], measures = [''amount''], dates = [''date'']\<rparr>"
  by (simp add: guide_buckets role_df_ratios role_df_columns is_numeric_def)

theorem metadata_roles_witness:
  "map Suggested_Role (generate_metadata example_env role_df) = [''Dimension'', ''Measure'', ''Date''] \<and>
   Suggested_Role (hd (generate_metadata example_env role_df)) \<in> {''Dimension'', ''Measure'', ''Date''}"
proof -
  have m: "map Suggested_Role (generate_metadata example_env role_df) =
      [''Dimension'', ''Measure'', ''Date'']"
    by (simp add: generate_metadata_def role_df_guide role_df_columns metadata_of_def
        suggested_role_def)
  then have "hd (generate_metadata example_env role_df) \<in> set (generate_metadata example_env role_df)"
    by (cases "generate_metadata example_env role_df") auto
  then show ?thesis using m metadata_roles [of example_env role_df] by blast
qed

subsection \<open>Filling missing values with the mean\<close>

lemma str_nat_digit: "n < 10 \<Longrightarrow> str_nat n = [digit_ch n]"
  by (simp add: str_nat.simps)

lemma digit_chs:
  "digit_ch 0 = CHR ''0''" "digit_ch 1 = CHR ''1''" "digit_ch (Suc 0) = CHR ''1''"
  "digit_ch 2 = CHR ''2''" "digit_ch 3 = CHR ''3''" "digit_ch 4 = CHR ''4''"
  "digit_ch 5 = CHR ''5''" "digit_ch 6 = CHR ''6''" "digit_ch 7 = CHR ''7''"
  "digit_ch 8 = CHR ''8''" "digit_ch 9 = CHR ''9''"
  by code_simp+

lemma fmt_seven_thirds: "fmt_2f (7 / 3) = ''2.33''"
  by (simp add: fmt_2f_def round_half_even_def Let_def str_nat_digit digit_chs)

lemma mean_df_values: "col_values mean_df ''A'' = [FloatV 1, FloatV 2, Null, FloatV 4]"
  by (simp add: col_values_def series_def mean_df_def column_names_def cell_at_def)

lemma mean_df_columns:
  "column_names mean_df = [''A'']" "dtype_of mean_df ''A'' = Float64"
  by (simp_all add: mean_df_def column_names_def dtype_of_def)

lemma mean_df_mean: "mean [FloatV 1, FloatV 2, Null, FloatV 4] = Some (7 / 3)"
  by (simp add: mean_def nums_def num_of_def)

lemma DataCleaner_init_heap_of:
  "DataCleaner_init 0 (heap_of d) =
     (\<lparr>DataCleaner.df = Suc 0, cleaning_log = []\<rparr>,
      \<lparr>objs = ((\<lambda>a. empty_frame)(0 := d))(Suc 0 := d), next_addr = 2\<rparr>)"
  by (simp add: DataCleaner_init_def heap_of_def alloc_def)

lemma mean_df_fillna:
  "fillna mean_df ''A'' (FloatV x) =
     \<lparr>columns = [(''A'', Float64)],
      rows = [(0, [FloatV 1]), (1, [FloatV 2]), (2, [FloatV x]), (3, [FloatV 4])]\<rparr>"
  by (simp add: fillna_def set_column_def mean_df_def column_names_def dtype_of_def upcast_def
      fits_def recast_def cell_at_def)

lemma mean_df_fill_step:
  "fill_step env (''A'', StrV ''mean'')
     (\<lparr>DataCleaner.df = Suc 0, cleaning_log = []\<rparr>,
      \<lparr>objs = ((\<lambda>a. empty_frame)(0 := mean_df))(Suc 0 := mean_df), next_addr = 2\<rparr>) =
   (None,
    \<lparr>DataCleaner.df = Suc 0, cleaning_log = [''Filled 1 missing values in 'A' with mean: 2.33'']\<rparr>,
    \<lparr>objs = ((\<lambda>a. empty_frame)(0 := mean_df))(Suc 0 :=
       \<lparr>columns = [(''A'', Float64)],
        rows = [(0, [FloatV 1]), (1, [FloatV 2]), (2, [FloatV (7 / 3)]), (3, [FloatV 4])]\<rparr>),
     next_addr = 2\<rparr>)"
  by (simp add: fill_step_def Let_def null_count_def mean_df_values mean_df_mean mean_df_fillna
      mean_df_columns is_numeric_def fmt_seven_thirds fmt_2f_nan_def log_append_def assign_def
      quoted_def str_nat_digit digit_chs)

text \<open>
  C5: for the column \<open>[1, 2, None, 4]\<close> and the strategy \<open>mean\<close>, the null cell gets the
  unrounded mean 7/3 of the other values, and the one log entry reports it to two
  decimals, as 2.33; the stored value is not the rounded one. The original object keeps
  its null.
\<close>

theorem fill_mean_example:
  "fst (fill_missing_values env [(''A'', StrV ''mean'')] (DataCleaner_init 0 (heap_of mean_df))) = None \<and>
   col_values (working_copy (snd (fill_missing_values env [(''A'', StrV ''mean'')]
       (DataCleaner_init 0 (heap_of mean_df))))) ''A'' =
     [FloatV 1, FloatV 2, FloatV (7 / 3), FloatV 4] \<and>
   cleaning_log (fst (snd (fill_missing_values env [(''A'', StrV ''mean'')]
       (DataCleaner_init 0 (heap_of mean_df))))) =
     [''Filled 1 missing values in 'A' with mean: 2.33''] \<and>
   FloatV (7 / 3) \<noteq> FloatV 2.33"
  by (simp add: DataCleaner_init_heap_of mean_df_fill_step working_copy_def col_values_def
      series_def column_names_def cell_at_def)

subsection \<open>Removing duplicates\<close>

lemma boolean_index_Cons:
  "boolean_index (x # xs) (b # bs) = (if b then x # boolean_index xs bs else boolean_index xs bs)"
  by (simp add: boolean_index_def)

lemma boolean_index_Nil [simp]: "boolean_index [] bs = []" "boolean_index xs [] = []"
  by (simp_all add: boolean_index_def)

lemma length_duplicated_first [simp]: "length (duplicated_first seen rs) = length rs"
  by (induction rs arbitrary: seen) auto

lemma duplicated_first_set:
  "set a = set b \<Longrightarrow> duplicated_first a rs = duplicated_first b rs"
proof (induction rs arbitrary: a b)
  case Nil
  then show ?case by simp
next
  case (Cons x rs)
  obtain i r where x: "x = (i, r)" by (cases x)
  have "set (r # a) = set (r # b)" using Cons.prems by simp
  then have "duplicated_first (r # a) rs = duplicated_first (r # b) rs" by (rule Cons.IH)
  then show ?case using Cons.prems x by simp
qed

lemma keep_first_again:
  "duplicated_first seen (boolean_index rs (map Not (duplicated_first seen rs))) =
     replicate (length (boolean_index rs (map Not (duplicated_first seen rs)))) False"
proof (induction rs arbitrary: seen)
  case Nil
  then show ?case by simp
next
  case (Cons x rs)
  obtain i r where x: "x = (i, r)" by (cases x)
  show ?case
  proof (cases "r \<in> set seen")
    case True
    then have "set (r # seen) = set seen" by auto
    then have "duplicated_first (r # seen) rs = duplicated_first seen rs"
      by (rule duplicated_first_set)
    then show ?thesis using True x Cons.IH [of seen] by (simp add: boolean_index_Cons)
  next
    case False
    then show ?thesis using x Cons.IH [of "r # seen"] by (simp add: boolean_index_Cons)
  qed
qed

lemma boolean_index_all:
  "boolean_index xs (replicate (length xs) True) = xs"
  by (induction xs) (simp_all add: boolean_index_Cons)

lemma length_boolean_index_le: "length (boolean_index xs bs) \<le> length xs"
proof -
  have "length (filter snd (zip xs bs)) \<le> length (zip xs bs)" by (rule length_filter_le)
  then show ?thesis by (simp add: boolean_index_def)
qed

lemma drop_duplicates_first_twice:
  "drop_duplicates ''first'' d = Inr d' \<Longrightarrow> drop_duplicates ''first'' d' = Inr d'"
  by (auto simp: drop_duplicates_def keep_first_again boolean_index_all)

lemma drop_duplicates_first_Inr:
  "\<exists>d'. drop_duplicates ''first'' d = Inr d'"
  by (simp add: drop_duplicates_def)

lemma remove_duplicates_first_copy:
  "drop_duplicates ''first'' (working_copy s) = Inr d' \<Longrightarrow>
   fst (remove_duplicates ''first'' s) = None \<and>
   working_copy (snd (remove_duplicates ''first'' s)) = d' \<and>
   cleaning_log (fst (snd (remove_duplicates ''first'' s))) =
     (if len d' < len (working_copy s)
      then cleaning_log (fst s) @ [''Removed '' @ str_nat (len (working_copy s) - len d') @ '' duplicate rows'']
      else cleaning_log (fst s))"
  by (cases s) (simp add: remove_duplicates_def working_copy_def alloc_def Let_def log_append_def)

text \<open>
  C6: applying \<open>remove_duplicates(keep='first')\<close> twice gives the working copy of one
  application, and the second application appends nothing to the log; neither raises.
\<close>

theorem remove_duplicates_idempotent:
  "fst (remove_duplicates ''first'' s) = None \<and>
   fst (remove_duplicates ''first'' (snd (remove_duplicates ''first'' s))) = None \<and>
   working_copy (snd (remove_duplicates ''first'' (snd (remove_duplicates ''first'' s)))) =
     working_copy (snd (remove_duplicates ''first'' s)) \<and>
   cleaning_log (fst (snd (remove_duplicates ''first'' (snd (remove_duplicates ''first'' s))))) =
     cleaning_log (fst (snd (remove_duplicates ''first'' s)))"
proof -
  obtain d' where d': "drop_duplicates ''first'' (working_copy s) = Inr d'"
    using drop_duplicates_first_Inr by blast
  let ?s1 = "snd (remove_duplicates ''first'' s)"
  have one: "fst (remove_duplicates ''first'' s) = None" "working_copy ?s1 = d'"
    using remove_duplicates_first_copy [OF d'] by simp_all
  have "drop_duplicates ''first'' (working_copy ?s1) = Inr d'"
    using drop_duplicates_first_twice [OF d'] one by simp
  from remove_duplicates_first_copy [OF this] one show ?thesis by simp
qed

subsection \<open>Removing outliers\<close>









lemma init_copy: "working_copy (DataCleaner_init 0 (heap_of d)) = d"
  by (simp add: DataCleaner_init_heap_of working_copy_def)






subsection \<open>Fixing values of a column that does not exist\<close>

lemma index_of_absent: "x \<notin> set xs \<Longrightarrow> index_of x (xs @ [x]) = Some (length xs)"
  by (induction xs) auto

lemma map_of_absent: "x \<notin> fst ` set ps \<Longrightarrow> map_of (ps @ [(x, t)]) x = Some t"
  by (induction ps) auto

lemma upcast_new_dtype: "upcast (new_dtype v) v = new_dtype v"
  by (cases v) (simp_all add: upcast_def new_dtype_def fits_def)

lemma recast_recast: "recast t (recast t v) = recast t v"
  by (cases v) (simp_all add: recast_def)

lemma recast_Null: "recast t Null = Null"
  by (simp add: recast_def)

lemma at_set_new:
  "col \<notin> set (column_names d) \<Longrightarrow> at_set d idx col v = with_new_column d col v {idx}"
  by (simp add: at_set_def with_new_column_def)

lemma names_with_new_column:
  "column_names (with_new_column d col v S) = column_names d @ [col]"
  by (simp add: with_new_column_def column_names_def)

lemma labels_with_new_column:
  "index_labels (with_new_column d col v S) = index_labels d"
  by (simp add: with_new_column_def index_labels_def comp_def case_prod_unfold)

lemma set_new_cell:
  "list_all (\<lambda>(i, r). length r = n) rs \<Longrightarrow>
   map (\<lambda>(i, r). (i, r[n := recast t ((\<lambda>i c. if i = idx then v else c) i (cell_at r n))]))
       (map (\<lambda>(i, r). (i, r @ [if i \<in> S then recast t v else Null])) rs) =
   map (\<lambda>(i, r). (i, r @ [if i \<in> insert idx S then recast t v else Null])) rs"
  by (induction rs) (auto simp: cell_at_def recast_recast recast_Null)

lemma at_set_again:
  assumes "wf_frame d" "col \<notin> set (column_names d)"
  shows "at_set (with_new_column d col v S) idx col v = with_new_column d col v (insert idx S)"
proof -
  let ?w = "with_new_column d col v S"
  let ?t = "new_dtype v"
  have n: "length (column_names d) = length (columns d)" by (simp add: column_names_def)
  have j: "index_of col (column_names ?w) = Some (length (columns d))"
    using assms(2) by (simp add: names_with_new_column index_of_absent n)
  have t: "dtype_of ?w col = ?t"
    using assms(2) map_of_absent [of col "columns d" ?t]
    by (simp add: dtype_of_def with_new_column_def column_names_def del: map_of_append)
  have c: "(columns d @ [(col, ?t)])[length (columns d) := (col, ?t)] = columns d @ [(col, ?t)]"
    by simp
  have r: "map (\<lambda>(i, r). (i, r[length (columns d) := recast ?t ((\<lambda>i c. if i = idx then v else c) i (cell_at r (length (columns d))))]))
             (map (\<lambda>(i, r). (i, r @ [if i \<in> S then recast ?t v else Null])) (rows d)) =
           map (\<lambda>(i, r). (i, r @ [if i \<in> insert idx S then recast ?t v else Null])) (rows d)"
    using assms(1) unfolding wf_frame_def by (rule set_new_cell)
  show ?thesis
    using assms(2) j t c r
    by (simp add: at_set_def names_with_new_column set_column_def upcast_new_dtype)
       (simp add: with_new_column_def)
qed

lemma fix_loop_created:
  assumes "wf_frame d" "col \<notin> set (column_names d)"
  shows "fix_loop col v idxs (with_new_column d col v S, n) =
     (with_new_column d col v (S \<union> {i \<in> set idxs. i \<in> set (index_labels d)}),
      n + length (filter (\<lambda>i. i \<in> set (index_labels d)) idxs))"
proof (induction idxs arbitrary: S n)
  case Nil
  then show ?case by simp
next
  case (Cons idx idxs)
  show ?case
  proof (cases "idx \<in> set (index_labels d)")
    case True
    have e: "insert idx S \<union> {i \<in> set idxs. i \<in> set (index_labels d)} =
        S \<union> {i \<in> set (idx # idxs). i \<in> set (index_labels d)}"
      using True by auto
    show ?thesis
      using True Cons.IH [of "insert idx S" "n + 1"] e
      by (simp add: labels_with_new_column at_set_again [OF assms])
  next
    case False
    have e: "{i \<in> set idxs. i \<in> set (index_labels d)} =
        {i \<in> set (idx # idxs). i \<in> set (index_labels d)}"
      using False by auto
    show ?thesis
      using False Cons.IH [of S n] e by (simp add: labels_with_new_column)
  qed
qed

lemma fix_loop_absent:
  assumes "wf_frame d" "col \<notin> set (column_names d)"
  shows "fix_loop col v idxs (d, n) =
     (if \<exists>i \<in> set idxs. i \<in> set (index_labels d)
      then (with_new_column d col v {i \<in> set idxs. i \<in> set (index_labels d)},
            n + length (filter (\<lambda>i. i \<in> set (index_labels d)) idxs))
      else (d, n))"
proof (induction idxs arbitrary: n)
  case Nil
  then show ?case by simp
next
  case (Cons idx idxs)
  show ?case
  proof (cases "idx \<in> set (index_labels d)")
    case True
    have e: "{idx} \<union> {i \<in> set idxs. i \<in> set (index_labels d)} =
        {i \<in> set (idx # idxs). i \<in> set (index_labels d)}"
      using True by auto
    show ?thesis
      using True e fix_loop_created [OF assms, of v idxs "{idx}" "n + 1"]
      by (simp add: at_set_new [OF assms(2)])
  next
    case False
    have e: "{i \<in> set idxs. i \<in> set (index_labels d)} =
        {i \<in> set (idx # idxs). i \<in> set (index_labels d)}"
      using False by auto
    show ?thesis using False Cons.IH [of n] e by auto
  qed
qed

lemma read_new_cell:
  "list_all (\<lambda>(i, r). length r = n) rs \<Longrightarrow>
   map (\<lambda>(i, r). (i, cell_at r n)) (map (\<lambda>(i, r). (i, r @ [if i \<in> S then x else Null])) rs) =
   map (\<lambda>(i, r). (i, if i \<in> S then x else Null)) rs"
  by (induction rs) (auto simp: cell_at_def)

lemma series_with_new_column:
  assumes "wf_frame d" "col \<notin> set (column_names d)"
  shows "series (with_new_column d col v S) col =
     map (\<lambda>(i, r). (i, if i \<in> S then recast (new_dtype v) v else Null)) (rows d)"
proof -
  have n: "length (column_names d) = length (columns d)" by (simp add: column_names_def)
  have "map (\<lambda>(i, r). (i, cell_at r (length (columns d))))
        (map (\<lambda>(i, r). (i, r @ [if i \<in> S then recast (new_dtype v) v else Null])) (rows d)) =
      map (\<lambda>(i, r). (i, if i \<in> S then recast (new_dtype v) v else Null)) (rows d)"
    using assms(1) unfolding wf_frame_def by (rule read_new_cell)
  then show ?thesis
    using assms
    by (simp add: series_def names_with_new_column index_of_absent n wf_frame_def)
       (simp add: with_new_column_def)
qed

text \<open>
  C9: when the named column is absent from the working copy (a frame with one cell per
  column in every row) and at least one of the given indices is a label of it, the call
  does not skip and does not raise: it adds the column at the end, holding the fix value
  in every row whose label is among the indices and null elsewhere, and logs the number
  of indices it found. An integer fix value is held as the float it equals, as in every
  float column.
\<close>

theorem fix_invalid_values_creates_column:
  assumes "wf_frame (working_copy s)"
    and "col \<notin> set (column_names (working_copy s))"
    and "idx \<in> set invalid_indices"
    and "idx \<in> set (index_labels (working_copy s))"
  shows "fst (fix_invalid_values col invalid_indices fix_value s) = None \<and>
     column_names (working_copy (snd (fix_invalid_values col invalid_indices fix_value s))) =
       column_names (working_copy s) @ [col] \<and>
     series (working_copy (snd (fix_invalid_values col invalid_indices fix_value s))) col =
       map (\<lambda>(i, r). (i, if i \<in> set invalid_indices then recast (new_dtype fix_value) fix_value
                           else Null))
           (rows (working_copy s)) \<and>
     cleaning_log (fst (snd (fix_invalid_values col invalid_indices fix_value s))) =
       cleaning_log (fst s) @
       [''Fixed '' @
        str_nat (length (filter (\<lambda>i. i \<in> set (index_labels (working_copy s))) invalid_indices)) @
        '' invalid values in '' @ quoted col]"
proof -
  let ?d = "working_copy s"
  let ?S = "{i \<in> set invalid_indices. i \<in> set (index_labels ?d)}"
  let ?n = "length (filter (\<lambda>i. i \<in> set (index_labels ?d)) invalid_indices)"
  have ex: "\<exists>i \<in> set invalid_indices. i \<in> set (index_labels ?d)"
    using assms(3,4) by blast
  have loop: "fix_loop col fix_value invalid_indices (?d, 0) = (with_new_column ?d col fix_value ?S, ?n)"
    using fix_loop_absent [OF assms(1,2), of fix_value invalid_indices 0] ex by simp
  have pos: "0 < ?n"
    using assms(3,4) by (auto simp: filter_empty_conv)
  have res: "fix_invalid_values col invalid_indices fix_value s =
      (None,
       log_append (''Fixed '' @ str_nat ?n @ '' invalid values in '' @ quoted col) (fst s),
       assign (DataCleaner.df (fst s)) (with_new_column ?d col fix_value ?S) (snd s))"
    using loop pos by (simp add: fix_invalid_values_def Let_def working_copy_def)
  have wc: "working_copy (snd (fix_invalid_values col invalid_indices fix_value s)) =
      with_new_column ?d col fix_value ?S"
    by (simp add: res working_copy_def assign_def log_append_def)
  have ser: "series (with_new_column ?d col fix_value ?S) col =
      map (\<lambda>(i, r). (i, if i \<in> set invalid_indices then recast (new_dtype fix_value) fix_value
                           else Null)) (rows ?d)"
  proof -
    have "i \<in> set (index_labels ?d)" if "(i, r) \<in> set (rows ?d)" for i r
      using that by (force simp: index_labels_def)
    then show ?thesis
      unfolding series_with_new_column [OF assms(1,2)] by (intro map_cong) auto
  qed
  show ?thesis
    using ser by (simp add: wc names_with_new_column) (simp add: res log_append_def)
qed

theorem fix_invalid_values_creates_column_witness:
  "wf_frame (working_copy (DataCleaner_init 0 (heap_of fix_df))) \<and>
   ''flag'' \<notin> set (column_names (working_copy (DataCleaner_init 0 (heap_of fix_df)))) \<and>
   (1::int) \<in> set [1, 7] \<and>
   1 \<in> set (index_labels (working_copy (DataCleaner_init 0 (heap_of fix_df)))) \<and>
   series (working_copy (snd (fix_invalid_values ''flag'' [1, 7] (StrV ''x'')
       (DataCleaner_init 0 (heap_of fix_df))))) ''flag'' =
     [(0, Null), (1, StrV ''x''), (2, Null)] \<and>
   cleaning_log (fst (snd (fix_invalid_values ''flag'' [1, 7] (StrV ''x'')
       (DataCleaner_init 0 (heap_of fix_df))))) =
     [''Fixed 1 invalid values in '' @ quoted ''flag'']"
proof -
  have h: "wf_frame (working_copy (DataCleaner_init 0 (heap_of fix_df)))"
    "''flag'' \<notin> set (column_names (working_copy (DataCleaner_init 0 (heap_of fix_df))))"
    "(1::int) \<in> set [1, 7]"
    "1 \<in> set (index_labels (working_copy (DataCleaner_init 0 (heap_of fix_df))))"
    by (simp_all add: init_copy fix_df_def wf_frame_def column_names_def index_labels_def)
  have l: "cleaning_log (fst (DataCleaner_init 0 (heap_of fix_df))) = []"
    by (simp add: DataCleaner_init_heap_of)
  show ?thesis
    using h fix_invalid_values_creates_column [OF h, of "StrV ''x''"]
    by (simp add: init_copy l)
      (simp add: fix_df_def index_labels_def recast_def new_dtype_def quoted_def str_nat_digit digit_chs)
qed

subsection \<open>The original dataset\<close>

lemma untouched_refl: "n \<le> next_addr h \<Longrightarrow> untouched n h h"
  by (simp add: untouched_def)

lemma untouched_trans: "untouched n h h' \<Longrightarrow> untouched n h' h'' \<Longrightarrow> untouched n h h''"
  by (simp add: untouched_def)

lemma untouched_alloc:
  "n \<le> next_addr h \<Longrightarrow> untouched n h (snd (alloc d h)) \<and> n \<le> fst (alloc d h)"
  by (simp add: untouched_def alloc_def)

lemma untouched_assign:
  "n \<le> next_addr h \<Longrightarrow> n \<le> a \<Longrightarrow> untouched n h (assign a d h)"
  by (simp add: untouched_def assign_def)

lemma remove_duplicates_frame:
  assumes "n \<le> next_addr (snd s)" "n \<le> DataCleaner.df (fst s)"
  shows "untouched n (snd s) (snd (snd (remove_duplicates keep s))) \<and>
         n \<le> DataCleaner.df (fst (snd (remove_duplicates keep s)))"
  using assms
  by (cases s) (auto simp: remove_duplicates_def Let_def untouched_def alloc_def log_append_def
      split: sum.splits)

lemma fill_step_frame:
  assumes "n \<le> next_addr (snd s)" "n \<le> DataCleaner.df (fst s)"
  shows "untouched n (snd s) (snd (snd (fill_step env item s))) \<and>
         n \<le> DataCleaner.df (fst (snd (fill_step env item s)))"
  using assms
  by (cases s) (simp add: fill_step_def Let_def untouched_def alloc_def assign_def log_append_def)

lemma fill_missing_values_frame:
  assumes "n \<le> next_addr (snd s)" "n \<le> DataCleaner.df (fst s)"
  shows "untouched n (snd s) (snd (snd (fill_missing_values env strategy s))) \<and>
         n \<le> DataCleaner.df (fst (snd (fill_missing_values env strategy s)))"
  using assms
proof (induction strategy arbitrary: s)
  case Nil
  then show ?case by (simp add: untouched_refl)
next
  case (Cons item strategy)
  obtain e s' where st: "fill_step env item s = (e, s')" by (cases "fill_step env item s")
  have f: "untouched n (snd s) (snd s')" "n \<le> DataCleaner.df (fst s')"
    using fill_step_frame [OF Cons.prems, of env item] st by simp_all
  then have n': "n \<le> next_addr (snd s')" by (simp add: untouched_def)
  show ?case
  proof (cases e)
    case None
    have "untouched n (snd s') (snd (snd (fill_missing_values env strategy s'))) \<and>
        n \<le> DataCleaner.df (fst (snd (fill_missing_values env strategy s')))"
      using n' f(2) by (rule Cons.IH)
    then show ?thesis using None st f(1) by (auto intro: untouched_trans)
  next
    case (Some x)
    then show ?thesis using st f by simp
  qed
qed

lemma remove_outliers_frame:
  assumes "n \<le> next_addr (snd s)" "n \<le> DataCleaner.df (fst s)"
  shows "untouched n (snd s) (snd (snd (remove_outliers col threshold s))) \<and>
         n \<le> DataCleaner.df (fst (snd (remove_outliers col threshold s)))"
  using assms
  by (cases s) (simp add: remove_outliers_def Let_def untouched_def alloc_def log_append_def)

lemma fix_invalid_values_frame:
  assumes "n \<le> next_addr (snd s)" "n \<le> DataCleaner.df (fst s)"
  shows "untouched n (snd s) (snd (snd (fix_invalid_values col idxs v s))) \<and>
         n \<le> DataCleaner.df (fst (snd (fix_invalid_values col idxs v s)))"
  using assms
  by (cases s) (simp add: fix_invalid_values_def Let_def untouched_def assign_def log_append_def
      split: prod.splits)

lemma clean_column_names_frame:
  assumes "n \<le> next_addr (snd s)" "n \<le> TableauPrep.df (fst s)"
  shows "untouched n (snd s) (snd (clean_column_names s)) \<and>
         n \<le> TableauPrep.df (fst (clean_column_names s))"
  using assms
  by (cases s) (simp add: clean_column_names_def Let_def untouched_def assign_def)

lemma enforce_data_types_frame:
  assumes "n \<le> next_addr (snd s)" "n \<le> TableauPrep.df (fst s)"
  shows "untouched n (snd s) (snd (enforce_data_types env s)) \<and>
         n \<le> TableauPrep.df (fst (enforce_data_types env s))"
  using assms
  by (cases s) (simp add: enforce_data_types_def Let_def untouched_def assign_def split: prod.splits)

lemma apply_operation_frame:
  assumes "n \<le> next_addr (snd (snd w))" "n \<le> DataCleaner.df (fst w)"
    "n \<le> TableauPrep.df (fst (snd w))"
  shows "untouched n (snd (snd w)) (snd (snd (apply_operation env op w))) \<and>
         n \<le> DataCleaner.df (fst (apply_operation env op w)) \<and>
         n \<le> TableauPrep.df (fst (snd (apply_operation env op w)))"
proof (cases op)
  case (RemoveDuplicates keep)
  then show ?thesis
    using assms remove_duplicates_frame [of n "(fst w, snd (snd w))" keep]
    by (simp add: apply_operation_def Let_def)
next
  case (FillMissingValues strategy)
  then show ?thesis
    using assms fill_missing_values_frame [of n "(fst w, snd (snd w))" env strategy]
    by (simp add: apply_operation_def Let_def)
next
  case (RemoveOutliers col threshold)
  then show ?thesis
    using assms remove_outliers_frame [of n "(fst w, snd (snd w))" col threshold]
    by (simp add: apply_operation_def Let_def)
next
  case (FixInvalidValues col idxs v)
  then show ?thesis
    using assms fix_invalid_values_frame [of n "(fst w, snd (snd w))" col idxs v]
    by (simp add: apply_operation_def Let_def)
next
  case CleanColumnNames
  then show ?thesis
    using assms clean_column_names_frame [of n "(fst (snd w), snd (snd w))"]
    by (simp add: apply_operation_def Let_def)
next
  case EnforceDataTypes
  then show ?thesis
    using assms enforce_data_types_frame [of n "(fst (snd w), snd (snd w))" env]
    by (simp add: apply_operation_def Let_def)
qed

lemma run_operations_frame:
  assumes "n \<le> next_addr (snd (snd w))" "n \<le> DataCleaner.df (fst w)"
    "n \<le> TableauPrep.df (fst (snd w))"
  shows "untouched n (snd (snd w)) (snd (snd (run_operations env ops w))) \<and>
         n \<le> DataCleaner.df (fst (run_operations env ops w)) \<and>
         n \<le> TableauPrep.df (fst (snd (run_operations env ops w)))"
  using assms
proof (induction ops arbitrary: w)
  case Nil
  then show ?case by (simp add: run_operations_def untouched_refl)
next
  case (Cons op ops)
  let ?w = "apply_operation env op w"
  have s: "untouched n (snd (snd w)) (snd (snd ?w))" "n \<le> DataCleaner.df (fst ?w)"
    "n \<le> TableauPrep.df (fst (snd ?w))"
    using apply_operation_frame [OF Cons.prems, of env op] by simp_all
  then have "n \<le> next_addr (snd (snd ?w))" by (simp add: untouched_def)
  from Cons.IH [OF this s(2,3)] s(1) show ?case
    by (auto simp: run_operations_def intro: untouched_trans)
qed

lemma construct_frame:
  "untouched (next_addr h) h (snd (snd (construct a b h))) \<and>
   next_addr h \<le> DataCleaner.df (fst (construct a b h)) \<and>
   next_addr h \<le> TableauPrep.df (fst (snd (construct a b h))) \<and>
   objs (snd (snd (construct a b h))) (DataCleaner.df (fst (construct a b h))) = objs h a"
  by (simp add: construct_def DataCleaner_init_def TableauPrep_init_def alloc_def Let_def untouched_def)

text \<open>
  C4: a cleaner and a preparer are constructed from datasets at the addresses \<open>a\<close> and
  \<open>b\<close> of a heap. Whatever sequence of \<open>remove_duplicates\<close>,
  \<open>fill_missing_values\<close>, \<open>remove_outliers\<close>, \<open>fix_invalid_values\<close>,
  \<open>clean_column_names\<close> and \<open>enforce_data_types\<close> runs on them, every object that
  existed before the construction (the original datasets among them) holds the data it
  held, and is neither the cleaner's nor the preparer's working copy: these are objects
  created at and after the construction.
\<close>

theorem original_never_mutated:
  assumes "x < next_addr h"
  shows "objs (snd (snd (run_operations env ops (construct a b h)))) x = objs h x \<and>
         x \<noteq> DataCleaner.df (fst (run_operations env ops (construct a b h))) \<and>
         x \<noteq> TableauPrep.df (fst (snd (run_operations env ops (construct a b h))))"
proof -
  let ?w = "construct a b h"
  have c: "untouched (next_addr h) h (snd (snd ?w))" "next_addr h \<le> DataCleaner.df (fst ?w)"
    "next_addr h \<le> TableauPrep.df (fst (snd ?w))"
    using construct_frame [of h a b] by simp_all
  then have "next_addr h \<le> next_addr (snd (snd ?w))" by (simp add: untouched_def)
  from run_operations_frame [OF this c(2,3), of env ops] c(1)
  have "untouched (next_addr h) h (snd (snd (run_operations env ops ?w)))"
    "next_addr h \<le> DataCleaner.df (fst (run_operations env ops ?w))"
    "next_addr h \<le> TableauPrep.df (fst (snd (run_operations env ops ?w)))"
    by (auto intro: untouched_trans)
  then show ?thesis using assms by (auto simp: untouched_def)
qed

theorem original_never_mutated_witness:
  "(0::nat) < next_addr (heap_of mean_df) \<and>
   objs (snd (snd (run_operations example_env
     [FillMissingValues [(''A'', StrV ''mean'')], CleanColumnNames, RemoveDuplicates ''first'']
     (construct 0 0 (heap_of mean_df))))) 0 = mean_df"
  using original_never_mutated [of 0 "heap_of mean_df" example_env
      "[FillMissingValues [(''A'', StrV ''mean'')], CleanColumnNames, RemoveDuplicates ''first'']" 0 0]
  by (simp add: heap_of_def)

subsection \<open>The issue report\<close>

lemma fold_missing_step:
  "fold (missing_step d) cs iss =
     iss\<lparr>missing_values := (\<lambda>k. if k \<in> set cs \<and> 0 < null_count d k
        then Some \<lparr>missing_entry.count = null_count d k,
                   percentage = round2 (real (null_count d k) / real (len d) * 100)\<rparr>
        else missing_values iss k)\<rparr>"
  by (induction cs arbitrary: iss) (auto simp: missing_step_def fun_eq_iff)

lemma fold_outlier_step:
  "fold (outlier_step d t) cs iss =
     iss\<lparr>outliers := (\<lambda>k. if k \<in> set cs \<and> \<not> real (len d) * 0.5 < real (null_count d k) \<and>
            std (col_values d k) \<noteq> Some 0 \<and> 0 < length (outliers_of d t k)
        then Some \<lparr>outlier_entry.count = length (outliers_of d t k),
                   outlier_entry.values = map snd (outliers_of d t k),
                   indices = map fst (outliers_of d t k)\<rparr>
        else outliers iss k)\<rparr>"
  by (induction cs arbitrary: iss) (auto simp: outlier_step_def fun_eq_iff)

lemma fold_email_step:
  "fold (email_step env d) cs iss =
     iss\<lparr>format_errors := (\<lambda>k. if k \<in> set cs \<and> str_contains ''email'' (str_lower k) \<and>
            invalid_emails_of env (series d k) \<noteq> []
        then Some (invalid_emails_of env (series d k))
        else format_errors iss k)\<rparr>"
  by (induction cs arbitrary: iss) (auto simp: email_step_def fun_eq_iff)

lemma fold_date_step:
  "distinct cs \<Longrightarrow>
   fold (date_step env d) cs iss =
     iss\<lparr>format_errors := (\<lambda>k. if k \<in> set cs \<and> str_contains ''date'' (str_lower k) \<and>
            invalid_dates_of env (series d k) \<noteq> []
        then Some ((case format_errors iss k of None \<Rightarrow> [] | Some es \<Rightarrow> es) @
                   invalid_dates_of env (series d k))
        else format_errors iss k)\<rparr>"
  by (induction cs arbitrary: iss) (auto simp: date_step_def fun_eq_iff)

lemma fold_boolean_step:
  "fold (boolean_step env d) cs iss =
     iss\<lparr>type_errors := (\<lambda>k. if k \<in> set cs \<and> dtype_of d k = Object \<and>
            list_all (\<lambda>s. s \<in> set bool_vals) (unique_strs env (col_values d k)) \<and>
            2 \<le> length (unique_strs env (col_values d k))
        then Some \<lparr>issue = ''Inconsistent boolean format'',
                   type_error.values = set (unique_strs env (col_values d k))\<rparr>
        else type_errors iss k)\<rparr>"
  by (induction cs arbitrary: iss) (auto simp: boolean_step_def fun_eq_iff)


lemma check_df [simp]:
  "DataValidator.df (check_column_names self) = DataValidator.df self"
  "DataValidator.df (check_missing_values self) = DataValidator.df self"
  "DataValidator.df (check_duplicates self) = DataValidator.df self"
  "DataValidator.df (check_numeric_outliers t self) = DataValidator.df self"
  "DataValidator.df (check_email_format env self) = DataValidator.df self"
  "DataValidator.df (check_date_format env self) = DataValidator.df self"
  "DataValidator.df (check_boolean_consistency env self) = DataValidator.df self"
  by (simp_all add: check_column_names_def check_missing_values_def check_duplicates_def
      check_numeric_outliers_def check_email_format_def check_date_format_def
      check_boolean_consistency_def Let_def)

lemma validate_all_state:
  "DataValidator.df (snd (validate_all env self)) = DataValidator.df self"
  "issues (snd (validate_all env self)) = fst (validate_all env self)"
  by (simp_all add: validate_all_def Let_def)

lemma check_column_names_fields:
  "column_name_issues (issues (check_column_names self)) =
     (if name_issues_of (column_names (DataValidator.df self)) \<noteq> []
      then name_issues_of (column_names (DataValidator.df self))
      else column_name_issues (issues self))"
  "missing_values (issues (check_column_names self)) = missing_values (issues self)"
  "duplicates (issues (check_column_names self)) = duplicates (issues self)"
  "type_errors (issues (check_column_names self)) = type_errors (issues self)"
  "outliers (issues (check_column_names self)) = outliers (issues self)"
  "format_errors (issues (check_column_names self)) = format_errors (issues self)"
  by (simp_all add: check_column_names_def Let_def)

lemma check_missing_values_fields:
  "missing_values (issues (check_missing_values self)) =
     (\<lambda>k. if k \<in> set (column_names (DataValidator.df self)) \<and> 0 < null_count (DataValidator.df self) k
        then Some \<lparr>missing_entry.count = null_count (DataValidator.df self) k,
                   percentage = round2 (real (null_count (DataValidator.df self) k) /
                                        real (len (DataValidator.df self)) * 100)\<rparr>
        else missing_values (issues self) k)"
  "column_name_issues (issues (check_missing_values self)) = column_name_issues (issues self)"
  "duplicates (issues (check_missing_values self)) = duplicates (issues self)"
  "type_errors (issues (check_missing_values self)) = type_errors (issues self)"
  "outliers (issues (check_missing_values self)) = outliers (issues self)"
  "format_errors (issues (check_missing_values self)) = format_errors (issues self)"
  by (simp_all add: check_missing_values_def fold_missing_step)

lemma check_duplicates_fields:
  "duplicates (issues (check_duplicates self)) =
     (if boolean_index (rows (DataValidator.df self)) (duplicated_all (rows (DataValidator.df self))) \<noteq> []
      then to_dict_records (column_names (DataValidator.df self))
             (boolean_index (rows (DataValidator.df self)) (duplicated_all (rows (DataValidator.df self))))
      else duplicates (issues self))"
  "column_name_issues (issues (check_duplicates self)) = column_name_issues (issues self)"
  "missing_values (issues (check_duplicates self)) = missing_values (issues self)"
  "type_errors (issues (check_duplicates self)) = type_errors (issues self)"
  "outliers (issues (check_duplicates self)) = outliers (issues self)"
  "format_errors (issues (check_duplicates self)) = format_errors (issues self)"
  by (simp_all add: check_duplicates_def Let_def)

lemma check_numeric_outliers_fields:
  "outliers (issues (check_numeric_outliers t self)) =
     (\<lambda>k. if k \<in> set (numeric_cols (DataValidator.df self)) \<and>
              \<not> real (len (DataValidator.df self)) * 0.5 < real (null_count (DataValidator.df self) k) \<and>
              std (col_values (DataValidator.df self) k) \<noteq> Some 0 \<and>
              0 < length (outliers_of (DataValidator.df self) t k)
        then Some \<lparr>outlier_entry.count = length (outliers_of (DataValidator.df self) t k),
                   outlier_entry.values = map snd (outliers_of (DataValidator.df self) t k),
                   indices = map fst (outliers_of (DataValidator.df self) t k)\<rparr>
        else outliers (issues self) k)"
  "column_name_issues (issues (check_numeric_outliers t self)) = column_name_issues (issues self)"
  "missing_values (issues (check_numeric_outliers t self)) = missing_values (issues self)"
  "duplicates (issues (check_numeric_outliers t self)) = duplicates (issues self)"
  "type_errors (issues (check_numeric_outliers t self)) = type_errors (issues self)"
  "format_errors (issues (check_numeric_outliers t self)) = format_errors (issues self)"
  by (simp_all add: check_numeric_outliers_def fold_outlier_step)

lemma check_email_format_fields:
  "format_errors (issues (check_email_format env self)) =
     (\<lambda>k. if k \<in> set (column_names (DataValidator.df self)) \<and> str_contains ''email'' (str_lower k) \<and>
              invalid_emails_of env (series (DataValidator.df self) k) \<noteq> []
        then Some (invalid_emails_of env (series (DataValidator.df self) k))
        else format_errors (issues self) k)"
  "column_name_issues (issues (check_email_format env self)) = column_name_issues (issues self)"
  "missing_values (issues (check_email_format env self)) = missing_values (issues self)"
  "duplicates (issues (check_email_format env self)) = duplicates (issues self)"
  "type_errors (issues (check_email_format env self)) = type_errors (issues self)"
  "outliers (issues (check_email_format env self)) = outliers (issues self)"
  by (simp_all add: check_email_format_def fold_email_step)

lemma check_date_format_fields:
  "distinct (column_names (DataValidator.df self)) \<Longrightarrow>
   format_errors (issues (check_date_format env self)) =
     (\<lambda>k. if k \<in> set (column_names (DataValidator.df self)) \<and> str_contains ''date'' (str_lower k) \<and>
              invalid_dates_of env (series (DataValidator.df self) k) \<noteq> []
        then Some ((case format_errors (issues self) k of None \<Rightarrow> [] | Some es \<Rightarrow> es) @
                   invalid_dates_of env (series (DataValidator.df self) k))
        else format_errors (issues self) k)"
  "distinct (column_names (DataValidator.df self)) \<Longrightarrow>
   column_name_issues (issues (check_date_format env self)) = column_name_issues (issues self)"
  "distinct (column_names (DataValidator.df self)) \<Longrightarrow>
   missing_values (issues (check_date_format env self)) = missing_values (issues self)"
  "distinct (column_names (DataValidator.df self)) \<Longrightarrow>
   duplicates (issues (check_date_format env self)) = duplicates (issues self)"
  "distinct (column_names (DataValidator.df self)) \<Longrightarrow>
   type_errors (issues (check_date_format env self)) = type_errors (issues self)"
  "distinct (column_names (DataValidator.df self)) \<Longrightarrow>
   outliers (issues (check_date_format env self)) = outliers (issues self)"
  by (simp_all add: check_date_format_def fold_date_step)

lemma check_boolean_consistency_fields:
  "type_errors (issues (check_boolean_consistency env self)) =
     (\<lambda>k. if k \<in> set (column_names (DataValidator.df self)) \<and> dtype_of (DataValidator.df self) k = Object \<and>
              list_all (\<lambda>s. s \<in> set bool_vals) (unique_strs env (col_values (DataValidator.df self) k)) \<and>
              2 \<le> length (unique_strs env (col_values (DataValidator.df self) k))
        then Some \<lparr>issue = ''Inconsistent boolean format'',
                   type_error.values = set (unique_strs env (col_values (DataValidator.df self) k))\<rparr>
        else type_errors (issues self) k)"
  "column_name_issues (issues (check_boolean_consistency env self)) = column_name_issues (issues self)"
  "missing_values (issues (check_boolean_consistency env self)) = missing_values (issues self)"
  "duplicates (issues (check_boolean_consistency env self)) = duplicates (issues self)"
  "outliers (issues (check_boolean_consistency env self)) = outliers (issues self)"
  "format_errors (issues (check_boolean_consistency env self)) = format_errors (issues self)"
  by (simp_all add: check_boolean_consistency_def fold_boolean_step)

lemmas check_fields = check_column_names_fields check_missing_values_fields check_duplicates_fields
  check_numeric_outliers_fields check_email_format_fields check_date_format_fields
  check_boolean_consistency_fields

lemma validate_all_format_errors:
  assumes "distinct (column_names (DataValidator.df self))"
  shows "format_errors (fst (validate_all env self)) =
     (\<lambda>k. if k \<in> set (column_names (DataValidator.df self)) \<and> str_contains ''date'' (str_lower k) \<and>
              invalid_dates_of env (series (DataValidator.df self) k) \<noteq> []
           then Some ((case (if k \<in> set (column_names (DataValidator.df self)) \<and>
                                 str_contains ''email'' (str_lower k) \<and>
                                 invalid_emails_of env (series (DataValidator.df self) k) \<noteq> []
                              then Some (invalid_emails_of env (series (DataValidator.df self) k))
                              else format_errors (issues self) k) of
                         None \<Rightarrow> [] | Some es \<Rightarrow> es) @
                      invalid_dates_of env (series (DataValidator.df self) k))
           else if k \<in> set (column_names (DataValidator.df self)) \<and> str_contains ''email'' (str_lower k) \<and>
                   invalid_emails_of env (series (DataValidator.df self) k) \<noteq> []
           then Some (invalid_emails_of env (series (DataValidator.df self) k))
           else format_errors (issues self) k)"
  using assms by (simp add: validate_all_def Let_def check_fields cong: if_cong)

lemma init_fields:
  "DataValidator.df (DataValidator_init d) = d"
  "missing_values (issues (DataValidator_init d)) = Map.empty"
  "duplicates (issues (DataValidator_init d)) = []"
  "type_errors (issues (DataValidator_init d)) = Map.empty"
  "outliers (issues (DataValidator_init d)) = Map.empty"
  "format_errors (issues (DataValidator_init d)) = Map.empty"
  "column_name_issues (issues (DataValidator_init d)) = []"
  by (simp_all add: DataValidator_init_def)



lemma order_date_name:
  "str_contains ''email'' (str_lower ''order date'') = False"
  "str_contains ''date'' (str_lower ''order date'') = True"
  by code_simp+

lemma date_df_facts:
  "column_names date_df = [''order date'']"
  "series date_df ''order date'' = [(0, StrV ''2024-13-45'')]"
  by (simp_all add: date_df_def column_names_def series_def cell_at_def)

lemma date_df_invalid:
  "to_datetime env (StrV ''2024-13-45'') = Inl e \<Longrightarrow>
   invalid_dates_of env [(0, StrV ''2024-13-45'')] = [\<lparr>index = 0, value = ''2024-13-45''\<rparr>]"
  by (simp add: invalid_dates_of_def py_str_def)

text \<open>
  C1 does not hold of the code: \<open>check_date_format\<close> extends the list that the
  previous run left in \<open>format_errors\<close>. For a dataset with the one column
  \<open>order date\<close> holding the value \<open>2024-13-45\<close>, which the parser refuses, the first
  run reports one format error and the second run, on the same validator and the same
  dataset, reports it twice.
\<close>

theorem validate_all_rerun_differs:
  assumes "to_datetime env (StrV ''2024-13-45'') = Inl e"
  shows "format_errors (fst (validate_all env (DataValidator_init date_df))) ''order date'' =
       Some [\<lparr>index = 0, value = ''2024-13-45''\<rparr>] \<and>
     format_errors (fst (validate_all env (snd (validate_all env (DataValidator_init date_df)))))
         ''order date'' =
       Some [\<lparr>index = 0, value = ''2024-13-45''\<rparr>, \<lparr>index = 0, value = ''2024-13-45''\<rparr>] \<and>
     fst (validate_all env (snd (validate_all env (DataValidator_init date_df)))) \<noteq>
       fst (validate_all env (DataValidator_init date_df))"
proof -
  let ?v0 = "DataValidator_init date_df"
  let ?v1 = "snd (validate_all env ?v0)"
  have d0: "distinct (column_names (DataValidator.df ?v0))"
    by (simp add: init_fields date_df_facts)
  have d1: "distinct (column_names (DataValidator.df ?v1))"
    by (simp add: validate_all_state init_fields date_df_facts)
  have one: "format_errors (fst (validate_all env ?v0)) ''order date'' =
      Some [\<lparr>index = 0, value = ''2024-13-45''\<rparr>]"
    unfolding validate_all_format_errors [OF d0]
    by (simp add: init_fields date_df_facts order_date_name date_df_invalid [OF assms])
  have two: "format_errors (fst (validate_all env ?v1)) ''order date'' =
      Some [\<lparr>index = 0, value = ''2024-13-45''\<rparr>, \<lparr>index = 0, value = ''2024-13-45''\<rparr>]"
    unfolding validate_all_format_errors [OF d1]
    by (simp add: validate_all_state one init_fields date_df_facts order_date_name
        date_df_invalid [OF assms])
  have "fst (validate_all env ?v1) \<noteq> fst (validate_all env ?v0)"
  proof
    assume "fst (validate_all env ?v1) = fst (validate_all env ?v0)"
    then have "format_errors (fst (validate_all env ?v1)) ''order date'' =
        format_errors (fst (validate_all env ?v0)) ''order date''" by simp
    then show False by (simp add: one two)
  qed
  then show ?thesis using one two by blast
qed

theorem validate_all_rerun_differs_witness:
  "to_datetime example_env (StrV ''2024-13-45'') = Inl ValueError \<and>
   fst (validate_all example_env (snd (validate_all example_env (DataValidator_init date_df)))) \<noteq>
     fst (validate_all example_env (DataValidator_init date_df))"
proof -
  have h: "to_datetime example_env (StrV ''2024-13-45'') = Inl ValueError"
    by (simp add: example_env_def)
  show ?thesis using h validate_all_rerun_differs [OF h] by blast
qed







end
